theory Spec2Isabelle
  imports Main "HOL-Library.Sublist"
begin

section \<open>Errors\<close>

text \<open>
  Go errors are values.  \<open>ErrNotExist\<close>, \<open>ErrExist\<close> and \<open>ErrInvalid\<close> are the
  sentinel errors of package \<open>os\<close>; \<open>ErrIO\<close> stands for any other failure of the
  operating system, \<open>ErrDecode\<close> for a failure of the JSON decoder and \<open>ErrArtifact\<close>
  for an error returned by the logical artifact.  A run-time panic is not an error value
  in Go; it ends the process.  The model records it as \<open>Panic\<close> so that it is a result
  like any other.
\<close>

datatype error =
    ErrNotExist
  | ErrExist
  | ErrInvalid
  | ErrIO string
  | ErrDecode
  | ErrArtifact string
  | Panic string

definition IsNotExist :: "error \<Rightarrow> bool" where
  "IsNotExist e = (e = ErrNotExist)"

definition IsExist :: "error \<Rightarrow> bool" where
  "IsExist e = (e = ErrExist)"

fun is_panic :: "error \<Rightarrow> bool" where
  "is_panic (Panic _) = True"
| "is_panic _ = False"

section \<open>Data model\<close>

type_synonym bytes = string

text \<open>A path is the list of its elements below the root directory of the store.\<close>

type_synonym path = "string list"

record Platform =
  Architecture :: string
  OS :: string

text \<open>
  \<open>ocispec.Descriptor\<close>.  \<open>Digest\<close> is a string (\<open>digest.Digest\<close>) of the form
  \<open>algorithm:hex\<close>.  \<open>Annotations\<close> is a Go map, which may be \<open>nil\<close> (\<open>None\<close>).
\<close>

record Descriptor =
  MediaType :: string
  Digest :: string
  Size :: int
  URLs :: "string list"
  Annotations :: "(string \<rightharpoonup> string) option"
  Platform :: "Platform option"

text \<open>The zero value \<open>ocispec.Descriptor{}\<close>.\<close>

definition Descriptor_zero :: Descriptor where
  "Descriptor_zero =
     \<lparr>MediaType = [], Digest = [], Size = 0, URLs = [], Annotations = None, Platform = None\<rparr>"

text \<open>\<open>ocispec.Index\<close>: the schema version and the list of manifests.\<close>

record Index =
  SchemaVersion :: int
  Manifests :: "Descriptor list"

definition AnnotationRefName :: string where
  "AnnotationRefName = ''org.opencontainers.image.ref.name''"

definition MediaTypeImageManifest :: string where
  "MediaTypeImageManifest = ''application/vnd.oci.image.manifest.v1+json''"

definition MediaTypeImageIndex :: string where
  "MediaTypeImageIndex = ''application/vnd.oci.image.index.v1+json''"

text \<open>
  Modelled from the spec: package \<open>consts\<close> is not among the sources.  Section 6 of the
  specification names the index document \<open>index.json\<close>; \<open>DockerManifestSchema2\<close> is the
  third of the media types that section 4.5 calls "a manifest or index type".
\<close>

definition OCIImageIndexFile :: string where
  "OCIImageIndexFile = ''index.json''"

definition DockerManifestSchema2 :: string where
  "DockerManifestSchema2 = ''application/vnd.docker.distribution.manifest.v2+json''"

text \<open>Reading a Go map: a \<open>nil\<close> map reads as the empty map, a missing key as \<open>""\<close>.\<close>

definition annotations_of :: "Descriptor \<Rightarrow> (string \<rightharpoonup> string)" where
  "annotations_of d = (case Annotations d of None \<Rightarrow> Map.empty | Some a \<Rightarrow> a)"

definition annotation :: "Descriptor \<Rightarrow> string \<Rightarrow> string" where
  "annotation d k = (case annotations_of d k of None \<Rightarrow> [] | Some v \<Rightarrow> v)"

text \<open>
  \<open>digest.Digest\<close>: \<open>Algorithm()\<close> is the part before the first colon, \<open>Hex()\<close> the part
  after it; both panic when the string has no colon (\<open>sepIndex\<close>).
\<close>

definition sepIndex :: "string \<Rightarrow> error + nat" where
  "sepIndex d =
     (if CHR '':'' \<in> set d then Inr (length (takeWhile (\<lambda>c. c \<noteq> CHR '':'') d))
      else Inl (Panic ''no separator in digest''))"

definition digest_Algorithm :: "string \<Rightarrow> error + string" where
  "digest_Algorithm d = (case sepIndex d of Inl e \<Rightarrow> Inl e | Inr i \<Rightarrow> Inr (take i d))"

definition digest_Hex :: "string \<Rightarrow> error + string" where
  "digest_Hex d = (case sepIndex d of Inl e \<Rightarrow> Inl e | Inr i \<Rightarrow> Inr (drop (Suc i) d))"

text \<open>
  \<open>digest.FromBytes\<close> is the canonical (SHA-256) digest of the data.  The hash itself is a
  parameter \<open>sha\<close> of the model, giving the hexadecimal encoding.
\<close>

definition FromBytes :: "(bytes \<Rightarrow> string) \<Rightarrow> bytes \<Rightarrow> string" where
  "FromBytes sha data = ''sha256:'' @ sha data"

text \<open>\<open>v1.Hash\<close> of go-containerregistry is a struct of two strings.\<close>

record Hash =
  Algorithm :: string
  Hex :: string

text \<open>
  An \<open>io.ReadCloser\<close>: the bytes not yet read, and the error (if any) that the reader
  returns once they are exhausted instead of a clean end of file.
\<close>

record ReadCloser =
  unread :: bytes
  readErr :: "error option"

text \<open>
  The logical artifact is an external collaborator; the store only calls its methods.
  A layer answers \<open>Digest()\<close> and \<open>Compressed()\<close>; an artifact answers \<open>Manifest()\<close>,
  \<open>RawConfig()\<close> and \<open>Layers()\<close>.  Of a manifest the store uses the media type and its
  JSON encoding (\<open>json.Marshal(m)\<close>), kept here as the field \<open>Marshal\<close>.
\<close>

record Layer =
  LayerDigest :: "error + Hash"
  Compressed :: "error + ReadCloser"

record Manifest =
  ManifestMediaType :: string
  Marshal :: "error + bytes"

record Artifact =
  GetManifest :: "error + Manifest"
  RawConfig :: "error + bytes"
  Layers :: "error + Layer list"

section \<open>The file system\<close>

text \<open>
  A file holds either raw bytes or the JSON encoding of an index document; the JSON codec
  is modelled by this tag, so decoding the encoding of a document gives the document back
  and decoding raw bytes fails.  Directories hold no data and are not represented: a
  directory is the set of files whose paths it prefixes.
\<close>

datatype content = Bytes bytes | IndexJSON Index

text \<open>
  The operations that may fail for reasons outside the program.  \<open>fault\<close> in the state
  says which of them do, and with which error; an operation that fails changes no file.
  The trace records each mutating operation that was attempted and each \<open>Wait\<close> on a
  group of goroutines, in the order of the calls.
\<close>

datatype op =
    MkdirAll path
  | Create path
  | Write path
  | Open path
  | WriteFile path
  | RemoveAll path

datatype event = Fs op | Await

text \<open>
  The state: the fields \<open>index\<close> and \<open>nameMap\<close> of the \<open>OCI\<close> struct (the pointer
  \<open>index\<close> is \<open>nil\<close> until the first load) and the directory tree below its \<open>root\<close>.
\<close>

record store =
  nameMap :: "string \<rightharpoonup> Descriptor"
  index :: "Index option"
  fs :: "path \<rightharpoonup> content"
  fault :: "op \<Rightarrow> error option"
  trace :: "event list"

definition logged :: "op \<Rightarrow> store \<Rightarrow> store" where
  "logged x st = st\<lparr>trace := trace st @ [Fs x]\<rparr>"

definition os_MkdirAll :: "path \<Rightarrow> store \<Rightarrow> error option \<times> store" where
  "os_MkdirAll p st = (fault st (MkdirAll p), logged (MkdirAll p) st)"

text \<open>\<open>os.Stat(p)\<close> returns no error exactly when something exists at \<open>p\<close>.\<close>

definition os_Stat :: "path \<Rightarrow> store \<Rightarrow> bool" where
  "os_Stat p st = (fs st p \<noteq> None)"

text \<open>\<open>os.Create\<close> truncates or creates the file and returns a handle on it.\<close>

definition os_Create :: "path \<Rightarrow> store \<Rightarrow> (error + path) \<times> store" where
  "os_Create p st =
     (case fault st (Create p) of
        Some e \<Rightarrow> (Inl e, logged (Create p) st)
      | None \<Rightarrow> (Inr p, (logged (Create p) st)\<lparr>fs := (fs st)(p \<mapsto> Bytes [])\<rparr>))"

definition file_bytes :: "store \<Rightarrow> path \<Rightarrow> bytes" where
  "file_bytes st p = (case fs st p of Some (Bytes b) \<Rightarrow> b | _ \<Rightarrow> [])"

text \<open>
  The methods of \<open>*os.File\<close> check their receiver: on a \<open>nil\<close> file (\<open>None\<close>) \<open>Write\<close>,
  \<open>Stat\<close> and \<open>Close\<close> return \<open>ErrInvalid\<close>.
\<close>

definition File_Write :: "path option \<Rightarrow> bytes \<Rightarrow> store \<Rightarrow> error option \<times> store" where
  "File_Write f data st =
     (case f of
        None \<Rightarrow> (Some ErrInvalid, st)
      | Some p \<Rightarrow>
          (case fault st (Write p) of
             Some e \<Rightarrow> (Some e, logged (Write p) st)
           | None \<Rightarrow>
               (None, (logged (Write p) st)\<lparr>fs := (fs st)(p \<mapsto> Bytes (file_bytes st p @ data))\<rparr>)))"

definition File_Stat :: "path option \<Rightarrow> store \<Rightarrow> error + nat" where
  "File_Stat f st =
     (case f of None \<Rightarrow> Inl ErrInvalid | Some p \<Rightarrow> Inr (length (file_bytes st p)))"

text \<open>
  \<open>io.Copy(w, rc)\<close> writes everything the reader delivers and returns the first error of
  either side.  The reader is left exhausted.
\<close>

definition io_Copy ::
  "path option \<Rightarrow> ReadCloser \<Rightarrow> store \<Rightarrow> error option \<times> ReadCloser \<times> store" where
  "io_Copy w rc st =
     (case File_Write w (unread rc) st of
        (Some e, st1) \<Rightarrow> (Some e, rc\<lparr>unread := []\<rparr>, st1)
      | (None, st1) \<Rightarrow> (readErr rc, rc\<lparr>unread := []\<rparr>, st1))"

definition os_Open :: "path \<Rightarrow> store \<Rightarrow> error + content" where
  "os_Open p st =
     (case fault st (Open p) of
        Some e \<Rightarrow> Inl e
      | None \<Rightarrow> (case fs st p of None \<Rightarrow> Inl ErrNotExist | Some c \<Rightarrow> Inr c))"

definition os_WriteFile :: "path \<Rightarrow> content \<Rightarrow> store \<Rightarrow> error option \<times> store" where
  "os_WriteFile p c st =
     (case fault st (WriteFile p) of
        Some e \<Rightarrow> (Some e, logged (WriteFile p) st)
      | None \<Rightarrow> (None, (logged (WriteFile p) st)\<lparr>fs := (fs st)(p \<mapsto> c)\<rparr>))"

text \<open>\<open>os.RemoveAll(p)\<close> removes \<open>p\<close> and everything below it; a missing \<open>p\<close> is no error.\<close>

definition os_RemoveAll :: "path \<Rightarrow> store \<Rightarrow> error option \<times> store" where
  "os_RemoveAll p st =
     (case fault st (RemoveAll p) of
        Some e \<Rightarrow> (Some e, logged (RemoveAll p) st)
      | None \<Rightarrow>
          (None, (logged (RemoveAll p) st)\<lparr>fs := (\<lambda>q. if prefix p q then None else fs st q)\<rparr>))"

definition json_Decode :: "content \<Rightarrow> error + Index" where
  "json_Decode c = (case c of Bytes _ \<Rightarrow> Inl ErrDecode | IndexJSON idx \<Rightarrow> Inr idx)"

section \<open>The content store (type OCI)\<close>

text \<open>\<open>NewOCI\<close>: an empty name map and a \<open>nil\<close> index over the given directory tree.\<close>

definition NewOCI :: "(path \<rightharpoonup> content) \<Rightarrow> (op \<Rightarrow> error option) \<Rightarrow> store" where
  "NewOCI files flt =
     \<lparr>nameMap = Map.empty, index = None, fs = files, fault = flt, trace = []\<rparr>"

definition nameMap_Store :: "string \<Rightarrow> Descriptor \<Rightarrow> store \<Rightarrow> store" where
  "nameMap_Store name desc st = st\<lparr>nameMap := (nameMap st)(name \<mapsto> desc)\<rparr>"

definition load_names :: "Descriptor list \<Rightarrow> (string \<rightharpoonup> Descriptor) \<Rightarrow> (string \<rightharpoonup> Descriptor)" where
  "load_names descs m =
     fold (\<lambda>desc m. if annotation desc AnnotationRefName \<noteq> []
                     then m(annotation desc AnnotationRefName \<mapsto> desc) else m) descs m"

definition LoadIndex :: "store \<Rightarrow> error option \<times> store" where
  "LoadIndex st =
     (case os_Open [OCIImageIndexFile] st of
        Inl err \<Rightarrow>
          if \<not> IsNotExist err then (Some err, st)
          else (None, st\<lparr>index := Some \<lparr>SchemaVersion = 2, Manifests = []\<rparr>\<rparr>)
      | Inr idx \<Rightarrow>
          (case json_Decode idx of
             Inl err \<Rightarrow> (Some err, st)
           | Inr doc \<Rightarrow>
               (None, st\<lparr>index := Some doc, nameMap := load_names (Manifests doc) (nameMap st)\<rparr>)))"

text \<open>
  \<open>SaveIndex\<close>.  \<open>Range\<close> of \<open>sync.Map\<close> presents the entries in an order of its own; the
  sequence \<open>ks\<close> of keys is that order.  The callback copies the descriptor, but a
  non-\<open>nil\<close> annotation map is shared between the copy and the entry of the name map, so
  stamping the copy stamps the entry too; a \<open>nil\<close> map is replaced in the copy only.
  Assigning \<open>o.index.Manifests\<close> panics when \<open>o.index\<close> is \<open>nil\<close>.  \<open>json.Marshal\<close> of an
  index has no failing case (strings, integers and maps of strings), so the only error
  of a save is that of \<open>os.WriteFile\<close>.
\<close>

definition stamp :: "string \<Rightarrow> Descriptor \<Rightarrow> Descriptor" where
  "stamp n d = d\<lparr>Annotations := Some ((annotations_of d)(AnnotationRefName \<mapsto> n))\<rparr>"

definition stamp_shared :: "string \<Rightarrow> Descriptor \<Rightarrow> Descriptor" where
  "stamp_shared n d = (case Annotations d of None \<Rightarrow> d | Some _ \<Rightarrow> stamp n d)"

definition lacks_refname :: "Descriptor \<Rightarrow> bool" where
  "lacks_refname d = (annotations_of d AnnotationRefName = None)"

definition range_descs :: "string list \<Rightarrow> (string \<rightharpoonup> Descriptor) \<Rightarrow> Descriptor list" where
  "range_descs ks m = List.map_filter (\<lambda>n. map_option (stamp n) (m n)) ks"

definition range_shared :: "string list \<Rightarrow> (string \<rightharpoonup> Descriptor) \<Rightarrow> (string \<rightharpoonup> Descriptor)" where
  "range_shared ks m =
     fold (\<lambda>n m. case m n of None \<Rightarrow> m | Some d \<Rightarrow> m(n \<mapsto> stamp_shared n d)) ks m"

definition SaveIndex :: "string list \<Rightarrow> store \<Rightarrow> error option \<times> store" where
  "SaveIndex ks st =
     (let descs = range_descs ks (nameMap st);
          st1 = st\<lparr>nameMap := range_shared ks (nameMap st)\<rparr>
      in case index st1 of
           None \<Rightarrow> (Some (Panic ''nil pointer dereference''), st1)
         | Some idx \<Rightarrow>
             (let doc = idx\<lparr>Manifests := descs\<rparr>
              in os_WriteFile [OCIImageIndexFile] (IndexJSON doc) (st1\<lparr>index := Some doc\<rparr>)))"

text \<open>The order of \<open>Range\<close>: every key of the map, once.\<close>

definition range_order :: "string list \<Rightarrow> (string \<rightharpoonup> Descriptor) \<Rightarrow> bool" where
  "range_order ks m = (distinct ks \<and> set ks = dom m)"

definition ensureBlob :: "string \<Rightarrow> string \<Rightarrow> store \<Rightarrow> (error + path) \<times> store" where
  "ensureBlob alg hex st =
     (let dir = [''blobs'', alg]
      in case os_MkdirAll dir st of
           (Some err, st1) \<Rightarrow>
             if \<not> IsExist err then (Inl err, st1) else (Inr (dir @ [hex]), st1)
         | (None, st1) \<Rightarrow> (Inr (dir @ [hex]), st1))"

text \<open>\<open>writeStream\<close> returns the reader as it leaves it, besides the error.\<close>

definition writeStream ::
  "path \<Rightarrow> ReadCloser \<Rightarrow> store \<Rightarrow> error option \<times> ReadCloser \<times> store" where
  "writeStream p rc st =
     (if os_Stat p st then (None, rc, st)
      else case os_Create p st of
             (Inl err, st1) \<Rightarrow> (Some err, rc, st1)
           | (Inr w, st1) \<Rightarrow> io_Copy (Some w) rc st1)"

definition writeBytes :: "(bytes \<Rightarrow> string) \<Rightarrow> bytes \<Rightarrow> store \<Rightarrow> error option \<times> store" where
  "writeBytes sha data st =
     (let d = FromBytes sha data
      in case digest_Algorithm d of Inl e \<Rightarrow> (Some e, st) | Inr alg \<Rightarrow>
         case digest_Hex d of Inl e \<Rightarrow> (Some e, st) | Inr hex \<Rightarrow>
         case ensureBlob alg hex st of
           (Inl err, st1) \<Rightarrow> (Some err, st1)
         | (Inr blobPath, st1) \<Rightarrow>
             (case writeStream blobPath \<lparr>unread = data, readErr = None\<rparr> st1 of
                (err, rc, st2) \<Rightarrow> (err, st2)))"

definition writeLayer :: "Layer \<Rightarrow> store \<Rightarrow> error option \<times> store" where
  "writeLayer layer st =
     (case LayerDigest layer of Inl err \<Rightarrow> (Some err, st) | Inr h \<Rightarrow>
      case ensureBlob (Algorithm h) (Hex h) st of
        (Inl err, st1) \<Rightarrow> (Some err, st1)
      | (Inr blobpath, st1) \<Rightarrow>
          (case Compressed layer of
             Inl err \<Rightarrow> (Some err, st1)
           | Inr rc \<Rightarrow> (case writeStream blobpath rc st1 of (err, rc', st2) \<Rightarrow> (err, st2))))"

text \<open>
  \<open>errgroup.Group\<close>: one goroutine per element, all started before \<open>Wait\<close>, which returns
  once all of them have returned and yields the first error.  The model runs the
  goroutines one after the other in the order of the list, which is one of the schedules
  the program may take; a goroutine that panics ends the process.
\<close>

fun errgroup_Go ::
  "('a \<Rightarrow> store \<Rightarrow> error option \<times> store) \<Rightarrow> 'a list \<Rightarrow> store \<Rightarrow> error option \<times> store" where
  "errgroup_Go task [] st = (None, st)"
| "errgroup_Go task (x # xs) st =
     (case task x st of
        (None, st1) \<Rightarrow> errgroup_Go task xs st1
      | (Some e, st1) \<Rightarrow>
          if is_panic e then (Some e, st1)
          else (case errgroup_Go task xs st1 of
                  (None, st2) \<Rightarrow> (Some e, st2)
                | (Some e', st2) \<Rightarrow> if is_panic e' then (Some e', st2) else (Some e, st2)))"

definition errgroup_Wait ::
  "('a \<Rightarrow> store \<Rightarrow> error option \<times> store) \<Rightarrow> 'a list \<Rightarrow> store \<Rightarrow> error option \<times> store" where
  "errgroup_Wait task xs st =
     (case errgroup_Go task xs st of
        (None, st1) \<Rightarrow> (None, st1\<lparr>trace := trace st1 @ [Await]\<rparr>)
      | (Some e, st1) \<Rightarrow>
          if is_panic e then (Some e, st1) else (Some e, st1\<lparr>trace := trace st1 @ [Await]\<rparr>))"

text \<open>
  \<open>Add\<close>, up to and including the manifest blob: the layers (written concurrently and
  awaited), the config blob, the manifest blob.
\<close>

definition Add_blobs ::
  "(bytes \<Rightarrow> string) \<Rightarrow> Artifact \<Rightarrow> store \<Rightarrow> (error + Manifest \<times> bytes) \<times> store" where
  "Add_blobs sha oci st =
     (case Layers oci of Inl err \<Rightarrow> (Inl err, st) | Inr layers \<Rightarrow>
      case errgroup_Wait writeLayer layers st of
        (Some err, st1) \<Rightarrow> (Inl err, st1)
      | (None, st1) \<Rightarrow>
     (case RawConfig oci of Inl err \<Rightarrow> (Inl err, st1) | Inr cdata \<Rightarrow>
      case writeBytes sha cdata st1 of
        (Some err, st2) \<Rightarrow> (Inl err, st2)
      | (None, st2) \<Rightarrow>
     (case GetManifest oci of Inl err \<Rightarrow> (Inl err, st2) | Inr m \<Rightarrow>
      case Marshal m of Inl err \<Rightarrow> (Inl err, st2) | Inr mdata \<Rightarrow>
      case writeBytes sha mdata st2 of
        (Some err, st3) \<Rightarrow> (Inl err, st3)
      | (None, st3) \<Rightarrow> (Inr (m, mdata), st3))))"

text \<open>
  \<open>Add\<close>: after the blobs, the descriptor of the manifest is stored in the name map, the
  index is loaded and then saved.  The function returns the zero descriptor also when it
  succeeds.
\<close>

definition Add ::
  "(bytes \<Rightarrow> string) \<Rightarrow> string list \<Rightarrow> Artifact \<Rightarrow> string \<Rightarrow> store \<Rightarrow> (error + Descriptor) \<times> store" where
  "Add sha ks oci reference st =
     (case Add_blobs sha oci st of
        (Inl err, st1) \<Rightarrow> (Inl err, st1)
      | (Inr (m, mdata), st1) \<Rightarrow>
          (let midx = \<lparr>MediaType = ManifestMediaType m, Digest = FromBytes sha mdata,
                       Size = int (length mdata), URLs = [],
                       Annotations = Some [AnnotationRefName \<mapsto> reference], Platform = None\<rparr>;
               st2 = nameMap_Store reference midx st1
           in case LoadIndex st2 of
                (Some err, st3) \<Rightarrow> (Inl err, st3)
              | (None, st3) \<Rightarrow>
                  (case SaveIndex ks st3 of
                     (Some err, st4) \<Rightarrow> (Inl err, st4)
                   | (None, st4) \<Rightarrow> (Inr Descriptor_zero, st4))))"

text \<open>
  \<open>Resolve\<close>.  On a miss the function returns its named result \<open>err\<close>, which nothing has
  assigned: the caller receives the empty name, the zero descriptor and no error.
\<close>

definition Resolve :: "string \<Rightarrow> store \<Rightarrow> (error + string \<times> Descriptor) \<times> store" where
  "Resolve ref st =
     (case LoadIndex st of
        (Some err, st1) \<Rightarrow> (Inl err, st1)
      | (None, st1) \<Rightarrow>
          (case nameMap st1 ref of
             None \<Rightarrow> (Inr ([], Descriptor_zero), st1)
           | Some d \<Rightarrow> (Inr (ref, d), st1)))"

text \<open>
  \<open>Fetcher\<close>: the handle is the store itself (\<open>Some ()\<close>); on a miss the function returns
  a \<open>nil\<close> handle (\<open>None\<close>) and no error.
\<close>

definition Fetcher :: "string \<Rightarrow> store \<Rightarrow> (error + unit option) \<times> store" where
  "Fetcher ref st =
     (case LoadIndex st of
        (Some err, st1) \<Rightarrow> (Inl err, st1)
      | (None, st1) \<Rightarrow>
          (case nameMap st1 ref of
             None \<Rightarrow> (Inr None, st1)
           | Some _ \<Rightarrow> (Inr (Some ()), st1)))"

text \<open>
  \<open>Walk\<close>.  The visitor may have effects of its own; it takes and returns a state
  \<open>'s\<close>.  The callback of \<open>Range\<close> stops the enumeration when the visitor returns an
  error, and \<open>Walk\<close> then returns \<open>nil\<close>.
\<close>

fun Range_visit ::
  "(string \<Rightarrow> Descriptor \<Rightarrow> 's \<Rightarrow> error option \<times> 's) \<Rightarrow> string list \<Rightarrow>
   (string \<rightharpoonup> Descriptor) \<Rightarrow> 's \<Rightarrow> 's" where
  "Range_visit fn [] m s = s"
| "Range_visit fn (k # ks) m s =
     (case m k of
        None \<Rightarrow> Range_visit fn ks m s
      | Some v \<Rightarrow>
          (case fn k v s of
             (Some err, s1) \<Rightarrow> s1
           | (None, s1) \<Rightarrow> Range_visit fn ks m s1))"

definition Walk ::
  "string list \<Rightarrow> (string \<Rightarrow> Descriptor \<Rightarrow> 's \<Rightarrow> error option \<times> 's) \<Rightarrow> 's \<Rightarrow> store \<Rightarrow>
   error option \<times> 's \<times> store" where
  "Walk ks fn s st =
     (case LoadIndex st of
        (Some err, st1) \<Rightarrow> (Some err, s, st1)
      | (None, st1) \<Rightarrow> (None, Range_visit fn ks (nameMap st1) s, st1))"

subsection \<open>The push session\<close>

text \<open>\<open>strings.SplitN(ref, "@", 2)\<close>: split at the first \<open>@\<close>, if there is one.\<close>

definition SplitN_at :: "string \<Rightarrow> string list" where
  "SplitN_at s =
     (if CHR ''@'' \<in> set s
      then [takeWhile (\<lambda>c. c \<noteq> CHR ''@'') s, tl (dropWhile (\<lambda>c. c \<noteq> CHR ''@'') s)]
      else [s])"

text \<open>
  The fields \<open>ref\<close> and \<open>digest\<close> of \<open>ociPusher\<close> carry here the names of the variables
  that \<open>Pusher\<close> fills them from, \<open>baseRef\<close> and \<open>hash\<close>; the field \<open>oci\<close> is the state.
\<close>

record ociPusher =
  baseRef :: string
  hash :: string

definition Pusher :: "string \<Rightarrow> store \<Rightarrow> (error + ociPusher) \<times> store" where
  "Pusher ref st =
     (case LoadIndex st of
        (Some err, st1) \<Rightarrow> (Inl err, st1)
      | (None, st1) \<Rightarrow>
          (let parts = SplitN_at ref
           in (Inr \<lparr>baseRef = hd parts,
                    hash = (if length parts > 1 then parts ! 1 else [])\<rparr>, st1)))"

text \<open>
  The writer that \<open>Push\<close> returns is built by \<open>content.NewIoContentWriter\<close> of oras-go
  from the \<open>io.Writer\<close> it wraps and its options; the value below is that call.  Bytes
  written to the writer are passed to the wrapped \<open>io.Writer\<close>: \<open>ioutil.Discard\<close> accepts
  and drops them, a file appends them.
\<close>

datatype sink = Discard | ToFile path

datatype WriterOpt = WithInputHash string | WithOutputHash string

datatype Writer = NewIoContentWriter sink "WriterOpt list"

fun Writer_Write :: "Writer \<Rightarrow> bytes \<Rightarrow> store \<Rightarrow> error option \<times> store" where
  "Writer_Write (NewIoContentWriter Discard opts) data st = (None, st)"
| "Writer_Write (NewIoContentWriter (ToFile f) opts) data st = File_Write (Some f) data st"

text \<open>
  \<open>Push\<close>, first part: a descriptor of a manifest or index media type whose digest is
  the one the session expects is the root; it is registered and the index saved.
\<close>

definition is_root :: "ociPusher \<Rightarrow> Descriptor \<Rightarrow> bool" where
  "is_root p d =
     (MediaType d \<in> {MediaTypeImageManifest, MediaTypeImageIndex, DockerManifestSchema2}
      \<and> hash p \<noteq> [] \<and> hash p = Digest d)"

definition Push_root :: "string list \<Rightarrow> ociPusher \<Rightarrow> Descriptor \<Rightarrow> store \<Rightarrow> error option \<times> store" where
  "Push_root ks p d st =
     (if is_root p d
      then (case LoadIndex st of
              (Some err, st1) \<Rightarrow> (Some err, st1)
            | (None, st1) \<Rightarrow> SaveIndex ks (nameMap_Store (baseRef p) d st1))
      else (None, st))"

definition Push :: "string list \<Rightarrow> ociPusher \<Rightarrow> Descriptor \<Rightarrow> store \<Rightarrow> (error + Writer) \<times> store" where
  "Push ks p d st =
     (case Push_root ks p d st of
        (Some err, st1) \<Rightarrow> (Inl err, st1)
      | (None, st1) \<Rightarrow>
     (case digest_Algorithm (Digest d) of Inl e \<Rightarrow> (Inl e, st1) | Inr alg \<Rightarrow>
      case digest_Hex (Digest d) of Inl e \<Rightarrow> (Inl e, st1) | Inr hex \<Rightarrow>
      case ensureBlob alg hex st1 of
        (Inl err, st2) \<Rightarrow> (Inl err, st2)
      | (Inr blobPath, st2) \<Rightarrow>
          if os_Stat blobPath st2
          then (Inr (NewIoContentWriter Discard [WithOutputHash (Digest d)]), st2)
          else (case os_Create blobPath st2 of
                  (Inl err, st3) \<Rightarrow> (Inl err, st3)
                | (Inr f, st3) \<Rightarrow>
                    (Inr (NewIoContentWriter (ToFile f)
                            [WithInputHash (Digest d), WithOutputHash (Digest d)]), st3))))"

section \<open>The layout (type Layout)\<close>

text \<open>
  A \<open>Layout\<close> owns a content store over the same root directory; its state is the state
  of that store.  \<open>NewLayout\<close> creates the store and loads its index.
\<close>

definition NewLayout :: "(path \<rightharpoonup> content) \<Rightarrow> (op \<Rightarrow> error option) \<Rightarrow> error + store" where
  "NewLayout files flt =
     (case LoadIndex (NewOCI files flt) of
        (Some err, st) \<Rightarrow> Inl err
      | (None, st) \<Rightarrow> Inr st)"

text \<open>
  \<open>writerAt\<close> returns a \<open>nil\<close> file and no error when something exists at the path of
  the blob.
\<close>

definition writerAt :: "string \<Rightarrow> string \<Rightarrow> store \<Rightarrow> (error + path option) \<times> store" where
  "writerAt alg hex st =
     (let dir = [''blobs'', alg];
          blobPath = dir @ [hex];
          create = (\<lambda>st1. if os_Stat blobPath st1 then (Inr None, st1)
                          else (case os_Create blobPath st1 of
                                  (Inl err, st2) \<Rightarrow> (Inl err, st2)
                                | (Inr f, st2) \<Rightarrow> (Inr (Some f), st2)))
      in case os_MkdirAll dir st of
           (Some err, st1) \<Rightarrow> if \<not> IsExist err then (Inl err, st1) else create st1
         | (None, st1) \<Rightarrow> create st1)"

definition Layout_writeBytes :: "(bytes \<Rightarrow> string) \<Rightarrow> bytes \<Rightarrow> store \<Rightarrow> error option \<times> store" where
  "Layout_writeBytes sha data st =
     (let d = FromBytes sha data
      in case digest_Algorithm d of Inl e \<Rightarrow> (Some e, st) | Inr alg \<Rightarrow>
         case digest_Hex d of Inl e \<Rightarrow> (Some e, st) | Inr hex \<Rightarrow>
         case writerAt alg hex st of
           (Inl err, st1) \<Rightarrow> (Some err, st1)
         | (Inr w, st1) \<Rightarrow> File_Write w data st1)"

text \<open>
  The goroutine of one layer in \<open>AddOCI\<close>.  The error of \<open>w.Stat()\<close> is dropped; when it
  fails the file information is \<open>nil\<close> and asking its size panics.
\<close>

definition AddOCI_layer :: "Layer \<Rightarrow> store \<Rightarrow> error option \<times> store" where
  "AddOCI_layer layer st =
     (case LayerDigest layer of Inl err \<Rightarrow> (Some err, st) | Inr h \<Rightarrow>
      case writerAt (Algorithm h) (Hex h) st of
        (Inl err, st1) \<Rightarrow> (Some err, st1)
      | (Inr w, st1) \<Rightarrow>
          (case File_Stat w st1 of
             Inl _ \<Rightarrow> (Some (Panic ''nil pointer dereference''), st1)
           | Inr sz \<Rightarrow>
               if sz \<noteq> 0 then (None, st1)
               else (case Compressed layer of
                       Inl err \<Rightarrow> (Some err, st1)
                     | Inr rc \<Rightarrow> (case io_Copy w rc st1 of (err, rc', st2) \<Rightarrow> (err, st2)))))"

text \<open>
  Modelled from the spec: \<open>AddIndex\<close> is a method of the content store that is not among
  the sources.  Section 4.4, step 6: "Register the root descriptor under referenceName in
  the name map and persist the index"; the reference name is the annotation that
  \<open>AddOCI\<close> has put on the descriptor.
\<close>

definition AddIndex :: "string list \<Rightarrow> Descriptor \<Rightarrow> store \<Rightarrow> error option \<times> store" where
  "AddIndex ks desc st = SaveIndex ks (nameMap_Store (annotation desc AnnotationRefName) desc st)"

text \<open>
  The cache is an external decorator: when the layout has one, \<open>layer.OCICache\<close> wraps
  the artifact with it.
\<close>

definition cached :: "(Artifact \<Rightarrow> Artifact) option \<Rightarrow> Artifact \<Rightarrow> Artifact" where
  "cached cache oci = (case cache of None \<Rightarrow> oci | Some OCICache \<Rightarrow> OCICache oci)"

text \<open>
  \<open>AddOCI\<close>, up to and including the layers: the manifest blob, the config blob, then the
  layers, written concurrently and awaited.
\<close>

definition AddOCI_blobs ::
  "(bytes \<Rightarrow> string) \<Rightarrow> (Artifact \<Rightarrow> Artifact) option \<Rightarrow> Artifact \<Rightarrow> store \<Rightarrow>
   (error + Manifest \<times> bytes) \<times> store" where
  "AddOCI_blobs sha cache oci0 st =
     (let oci = cached cache oci0
      in case GetManifest oci of Inl err \<Rightarrow> (Inl err, st) | Inr m \<Rightarrow>
         case Marshal m of Inl err \<Rightarrow> (Inl err, st) | Inr mdata \<Rightarrow>
         case Layout_writeBytes sha mdata st of
           (Some err, st1) \<Rightarrow> (Inl err, st1)
         | (None, st1) \<Rightarrow>
        (case RawConfig oci of Inl err \<Rightarrow> (Inl err, st1) | Inr cdata \<Rightarrow>
         case Layout_writeBytes sha cdata st1 of
           (Some err, st2) \<Rightarrow> (Inl err, st2)
         | (None, st2) \<Rightarrow>
        (case Layers oci of Inl err \<Rightarrow> (Inl err, st2) | Inr layers \<Rightarrow>
         case errgroup_Wait AddOCI_layer layers st2 of
           (Some err, st3) \<Rightarrow> (Inl err, st3)
         | (None, st3) \<Rightarrow> (Inr (m, mdata), st3))))"

definition AddOCI ::
  "(bytes \<Rightarrow> string) \<Rightarrow> string list \<Rightarrow> (Artifact \<Rightarrow> Artifact) option \<Rightarrow> Artifact \<Rightarrow> string \<Rightarrow>
   store \<Rightarrow> (error + Descriptor) \<times> store" where
  "AddOCI sha ks cache oci ref st =
     (case AddOCI_blobs sha cache oci st of
        (Inl err, st1) \<Rightarrow> (Inl err, st1)
      | (Inr (m, mdata), st1) \<Rightarrow>
          (let idx = \<lparr>MediaType = ManifestMediaType m, Digest = FromBytes sha mdata,
                      Size = int (length mdata), URLs = [],
                      Annotations = Some [AnnotationRefName \<mapsto> ref], Platform = None\<rparr>
           in case AddIndex ks idx st1 of
                (Some err, st2) \<Rightarrow> (Inl err, st2)
              | (None, st2) \<Rightarrow> (Inr idx, st2)))"

definition Flush :: "store \<Rightarrow> error option \<times> store" where
  "Flush st =
     (case os_RemoveAll [''blobs''] st of
        (Some err, st1) \<Rightarrow> (Some err, st1)
      | (None, st1) \<Rightarrow>
     (case os_RemoveAll [''index.json''] st1 of
        (Some err, st2) \<Rightarrow> (Some err, st2)
      | (None, st2) \<Rightarrow>
     (case os_RemoveAll [''oci-layout''] st2 of
        (Some err, st3) \<Rightarrow> (Some err, st3)
      | (None, st3) \<Rightarrow> (None, st3))))"

section \<open>Predicates used in the proofs\<close>

text \<open>
  \<open>blob_frame st st1\<close>: from \<open>st\<close> to \<open>st1\<close> the name map, the loaded index and the
  faults are unchanged, and so is every file outside \<open>blobs/\<close>.
\<close>

definition blob_frame :: "store \<Rightarrow> store \<Rightarrow> bool" where
  "blob_frame st st1 =
     (nameMap st1 = nameMap st \<and> index st1 = index st \<and> fault st1 = fault st
      \<and> (\<forall>q. \<not> prefix [''blobs''] q \<longrightarrow> fs st1 q = fs st q))"

text \<open>
  The events of writing a blob, the same with the await of the goroutines, and
  \<open>appends P st st1\<close>: the trace of \<open>st1\<close> is the trace of \<open>st\<close> followed by events that
  all satisfy \<open>P\<close>.
\<close>

fun blob_op :: "event \<Rightarrow> bool" where
  "blob_op (Fs (MkdirAll p)) = True"
| "blob_op (Fs (Create p)) = True"
| "blob_op (Fs (Write p)) = True"
| "blob_op _ = False"

fun blob_or_await :: "event \<Rightarrow> bool" where
  "blob_or_await Await = True"
| "blob_or_await e = blob_op e"

definition appends :: "(event \<Rightarrow> bool) \<Rightarrow> store \<Rightarrow> store \<Rightarrow> bool" where
  "appends P st st1 = (\<exists>evs. trace st1 = trace st @ evs \<and> list_all P evs)"

section \<open>Concrete inputs\<close>

text \<open>
  The inputs at which the theorems below are evaluated.  \<open>sha_id\<close> stands in for the
  hash: it names a blob by its content.  \<open>art1\<close> and \<open>art2\<close> are two artifacts with one
  layer each and different manifests and configs.
\<close>

definition sha_id :: "bytes \<Rightarrow> string" where
  "sha_id data = data"

definition no_fault :: "op \<Rightarrow> error option" where
  "no_fault x = None"

definition layer1 :: Layer where
  "layer1 = \<lparr>LayerDigest = Inr \<lparr>Algorithm = ''sha256'', Hex = ''l1''\<rparr>,
             Compressed = Inr \<lparr>unread = ''l1'', readErr = None\<rparr>\<rparr>"

definition art1 :: Artifact where
  "art1 = \<lparr>GetManifest = Inr \<lparr>ManifestMediaType = MediaTypeImageManifest, Marshal = Inr ''m1''\<rparr>,
           RawConfig = Inr ''c1'', Layers = Inr [layer1]\<rparr>"

definition art2 :: Artifact where
  "art2 = \<lparr>GetManifest = Inr \<lparr>ManifestMediaType = MediaTypeImageManifest, Marshal = Inr ''m2''\<rparr>,
           RawConfig = Inr ''c2'', Layers = Inr [layer1]\<rparr>"

text \<open>The root descriptors of the two artifacts under the name \<open>app\<close>.\<close>

definition desc1 :: Descriptor where
  "desc1 = \<lparr>MediaType = MediaTypeImageManifest, Digest = ''sha256:m1'', Size = 2, URLs = [],
            Annotations = Some [AnnotationRefName \<mapsto> ''app''], Platform = None\<rparr>"

definition desc2 :: Descriptor where
  "desc2 = \<lparr>MediaType = MediaTypeImageManifest, Digest = ''sha256:m2'', Size = 2, URLs = [],
            Annotations = Some [AnnotationRefName \<mapsto> ''app''], Platform = None\<rparr>"

text \<open>A store in which \<open>art1\<close> has been added under the name \<open>app\<close>.\<close>

definition store_app :: store where
  "store_app = snd (Add sha_id [''app''] art1 ''app'' (NewOCI Map.empty no_fault))"

text \<open>The same store after \<open>art2\<close> has been added under the name \<open>lib\<close>.\<close>

definition store_app_lib :: store where
  "store_app_lib = snd (Add sha_id [''app'', ''lib''] art2 ''lib'' store_app)"

text \<open>A visitor that records the name it is given and returns an error.\<close>

definition failing_visitor :: "string \<Rightarrow> Descriptor \<Rightarrow> string list \<Rightarrow> error option \<times> string list" where
  "failing_visitor name desc seen = (Some (ErrIO ''stop''), seen @ [name])"

text \<open>
  Layouts opened on a directory that holds the layer and the config blob of \<open>art1\<close>, and
  on one that holds its layer blob only.
\<close>

definition layout_layer_config :: store where
  "layout_layer_config =
     snd (LoadIndex (NewOCI [[''blobs'', ''sha256'', ''l1''] \<mapsto> Bytes ''l1'',
                              [''blobs'', ''sha256'', ''c1''] \<mapsto> Bytes ''c1''] no_fault))"

definition layout_layer :: store where
  "layout_layer =
     snd (LoadIndex (NewOCI [[''blobs'', ''sha256'', ''l1''] \<mapsto> Bytes ''l1''] no_fault))"

text \<open>
  An index document with a named and an unnamed descriptor, and the store that has loaded
  it.
\<close>

definition desc_unnamed :: Descriptor where
  "desc_unnamed = \<lparr>MediaType = MediaTypeImageManifest, Digest = ''sha256:m3'', Size = 2,
                   URLs = [], Annotations = None, Platform = None\<rparr>"

definition doc_mixed :: Index where
  "doc_mixed = \<lparr>SchemaVersion = 2, Manifests = [desc1, desc_unnamed]\<rparr>"

definition store_mixed :: store where
  "store_mixed = snd (LoadIndex (NewOCI [[OCIImageIndexFile] \<mapsto> IndexJSON doc_mixed] no_fault))"

text \<open>
  An empty store whose index has been loaded, the session for \<open>app@sha256:m1\<close>, the
  descriptor of the manifest it expects and the descriptor of a layer.
\<close>

definition store_empty :: store where
  "store_empty = snd (LoadIndex (NewOCI Map.empty no_fault))"

definition pusher_app :: ociPusher where
  "pusher_app = \<lparr>baseRef = ''app'', hash = ''sha256:m1''\<rparr>"

definition desc_m1 :: Descriptor where
  "desc_m1 = \<lparr>MediaType = MediaTypeImageManifest, Digest = ''sha256:m1'', Size = 2, URLs = [],
              Annotations = None, Platform = None\<rparr>"

definition desc_layer :: Descriptor where
  "desc_layer = \<lparr>MediaType = ''application/vnd.oci.image.layer.v1.tar+gzip'',
                 Digest = ''sha256:l1'', Size = 2, URLs = [], Annotations = None, Platform = None\<rparr>"

text \<open>
  A store whose directory creation for \<open>sha256\<close> blobs fails, with its index loaded.
\<close>

definition mkdir_fault :: "op \<Rightarrow> error option" where
  "mkdir_fault x = (if x = MkdirAll [''blobs'', ''sha256''] then Some (ErrIO ''disk'') else None)"

definition store_faulty :: store where
  "store_faulty = snd (LoadIndex (NewOCI Map.empty mkdir_fault))"

text \<open>An artifact whose second layer cannot deliver its content.\<close>

definition layer_broken :: Layer where
  "layer_broken = \<lparr>LayerDigest = Inr \<lparr>Algorithm = ''sha256'', Hex = ''l2''\<rparr>,
                   Compressed = Inl (ErrArtifact ''broken'')\<rparr>"

definition art_broken :: Artifact where
  "art_broken = \<lparr>GetManifest = Inr \<lparr>ManifestMediaType = MediaTypeImageManifest, Marshal = Inr ''m3''\<rparr>,
                 RawConfig = Inr ''c3'', Layers = Inr [layer1, layer_broken]\<rparr>"

text \<open>
  The store \<open>store_app\<close> in a directory that also holds the layout marker and a file that
  is not part of the store.
\<close>

definition store_shared :: store where
  "store_shared = store_app\<lparr>fs := (fs store_app)([''oci-layout''] \<mapsto> Bytes ''{}'',
                                                    [''notes.txt''] \<mapsto> Bytes ''keep'')\<rparr>"

text \<open>The traces of \<open>AddOCI\<close> and of \<open>Add\<close> of \<open>art1\<close> on the empty store.\<close>

definition trace_AddOCI :: "event list" where
  "trace_AddOCI =
     [Fs (MkdirAll [''blobs'', ''sha256'']), Fs (Create [''blobs'', ''sha256'', ''m1'']),
      Fs (Write [''blobs'', ''sha256'', ''m1'']),
      Fs (MkdirAll [''blobs'', ''sha256'']), Fs (Create [''blobs'', ''sha256'', ''c1'']),
      Fs (Write [''blobs'', ''sha256'', ''c1'']),
      Fs (MkdirAll [''blobs'', ''sha256'']), Fs (Create [''blobs'', ''sha256'', ''l1'']),
      Fs (Write [''blobs'', ''sha256'', ''l1'']), Await,
      Fs (WriteFile [OCIImageIndexFile])]"

definition trace_Add :: "event list" where
  "trace_Add =
     [Fs (MkdirAll [''blobs'', ''sha256'']), Fs (Create [''blobs'', ''sha256'', ''l1'']),
      Fs (Write [''blobs'', ''sha256'', ''l1'']), Await,
      Fs (MkdirAll [''blobs'', ''sha256'']), Fs (Create [''blobs'', ''sha256'', ''c1'']),
      Fs (Write [''blobs'', ''sha256'', ''c1'']),
      Fs (MkdirAll [''blobs'', ''sha256'']), Fs (Create [''blobs'', ''sha256'', ''m1'']),
      Fs (Write [''blobs'', ''sha256'', ''m1'']),
      Fs (WriteFile [OCIImageIndexFile])]"

section \<open>Evaluation\<close>

lemmas fs_defs =
  os_MkdirAll_def os_Stat_def os_Create_def File_Write_def File_Stat_def io_Copy_def
  os_Open_def os_WriteFile_def os_RemoveAll_def json_Decode_def logged_def file_bytes_def

lemmas digest_defs = sepIndex_def digest_Algorithm_def digest_Hex_def FromBytes_def

lemmas oci_defs =
  NewOCI_def nameMap_Store_def load_names_def LoadIndex_def SaveIndex_def stamp_def
  stamp_shared_def range_descs_def range_shared_def ensureBlob_def writeStream_def
  writeBytes_def writeLayer_def errgroup_Wait_def Add_blobs_def Add_def Resolve_def
  Fetcher_def annotations_of_def annotation_def IsNotExist_def IsExist_def
  List.map_filter_def Let_def

lemmas layout_defs =
  writerAt_def Layout_writeBytes_def AddOCI_layer_def AddIndex_def cached_def
  AddOCI_blobs_def AddOCI_def Flush_def

lemmas input_defs =
  sha_id_def no_fault_def layer1_def art1_def art2_def desc1_def desc2_def

text \<open>The example stores, evaluated.\<close>

lemma store_empty_eval:
  "store_empty = \<lparr>nameMap = Map.empty, index = Some \<lparr>SchemaVersion = 2, Manifests = []\<rparr>,
                   fs = Map.empty, fault = no_fault, trace = []\<rparr>"
  by (simp add: store_empty_def LoadIndex_def os_Open_def NewOCI_def no_fault_def IsNotExist_def)

lemma store_faulty_eval:
  "store_faulty = \<lparr>nameMap = Map.empty, index = Some \<lparr>SchemaVersion = 2, Manifests = []\<rparr>,
                    fs = Map.empty, fault = mkdir_fault, trace = []\<rparr>"
  by (simp add: store_faulty_def LoadIndex_def os_Open_def NewOCI_def mkdir_fault_def
      IsNotExist_def)

lemma store_app_eval:
  "store_app =
     \<lparr>nameMap = [''app'' \<mapsto> desc1],
      index = Some \<lparr>SchemaVersion = 2, Manifests = [desc1]\<rparr>,
      fs = [[''blobs'', ''sha256'', ''l1''] \<mapsto> Bytes ''l1'',
            [''blobs'', ''sha256'', ''c1''] \<mapsto> Bytes ''c1'',
            [''blobs'', ''sha256'', ''m1''] \<mapsto> Bytes ''m1'',
            [OCIImageIndexFile] \<mapsto> IndexJSON \<lparr>SchemaVersion = 2, Manifests = [desc1]\<rparr>],
      fault = no_fault,
      trace = [Fs (MkdirAll [''blobs'', ''sha256'']),
               Fs (Create [''blobs'', ''sha256'', ''l1'']),
               Fs (Write [''blobs'', ''sha256'', ''l1'']), Await,
               Fs (MkdirAll [''blobs'', ''sha256'']),
               Fs (Create [''blobs'', ''sha256'', ''c1'']),
               Fs (Write [''blobs'', ''sha256'', ''c1'']),
               Fs (MkdirAll [''blobs'', ''sha256'']),
               Fs (Create [''blobs'', ''sha256'', ''m1'']),
               Fs (Write [''blobs'', ''sha256'', ''m1'']),
               Fs (WriteFile [OCIImageIndexFile])]\<rparr>"
  by (simp add: store_app_def fs_defs digest_defs oci_defs input_defs)

section \<open>Resolving and fetching a name that is not registered\<close>

lemma LoadIndex_NewOCI_empty:
  "LoadIndex (NewOCI Map.empty (\<lambda>_. None)) =
     (None, (NewOCI Map.empty (\<lambda>_. None))\<lparr>index := Some \<lparr>SchemaVersion = 2, Manifests = []\<rparr>\<rparr>)"
  by (simp add: LoadIndex_def os_Open_def NewOCI_def IsNotExist_def)

text \<open>A miss never yields an error: the only error of either function is that of the load.\<close>

lemma Resolve_miss:
  "fst (LoadIndex st) = None \<Longrightarrow> nameMap (snd (LoadIndex st)) ref = None \<Longrightarrow>
     fst (Resolve ref st) = Inr ([], Descriptor_zero) \<and> fst (Fetcher ref st) = Inr None"
  by (simp add: Resolve_def Fetcher_def case_prod_unfold)

text \<open>
  C3.  On an empty store the name \<open>missing\<close> is not in the name map.  \<open>Resolve\<close> returns
  the empty name and the zero descriptor with no error, and \<open>Fetcher\<close> returns a \<open>nil\<close>
  handle with no error: neither returns a NotFound error.
\<close>

theorem Resolve_Fetcher_miss_no_error:
  "fst (Resolve ''missing'' (NewOCI Map.empty (\<lambda>_. None))) = Inr ([], Descriptor_zero)
   \<and> fst (Fetcher ''missing'' (NewOCI Map.empty (\<lambda>_. None))) = Inr None"
  by (simp add: Resolve_def Fetcher_def LoadIndex_NewOCI_empty) (simp add: NewOCI_def)

section \<open>Re-ingesting blobs that are already on disk\<close>

text \<open>\<open>writeStream\<close> of the content store leaves an existing file and its reader alone.\<close>

lemma writeStream_present:
  "fs st p \<noteq> None \<Longrightarrow> writeStream p rc st = (None, rc, st)"
  by (simp add: writeStream_def os_Stat_def)

text \<open>
  C1.  \<open>AddOCI\<close> of an artifact whose layer and config blobs are on disk does not
  succeed: \<open>writerAt\<close> returns a \<open>nil\<close> file for the config blob and \<open>writeBytes\<close>
  returns the \<open>ErrInvalid\<close> of writing to it.  When only the layer blob is on disk the
  goroutine of that layer panics on the size of a \<open>nil\<close> file information.
\<close>

theorem AddOCI_existing_blobs_fails:
  "fst (AddOCI sha_id [''app''] None art1 ''app'' layout_layer_config) = Inl ErrInvalid
   \<and> fst (AddOCI sha_id [''app''] None art1 ''app'' layout_layer)
       = Inl (Panic ''nil pointer dereference'')"
  by (simp add: layout_layer_config_def layout_layer_def fs_defs digest_defs oci_defs
      layout_defs input_defs)

section \<open>Adding a second artifact under a registered name\<close>

text \<open>
  C2.  After \<open>art1\<close> has been added under the name \<open>app\<close>, adding \<open>art2\<close> under the
  same name succeeds, and the name still resolves to the descriptor of \<open>art1\<close>: \<open>Add\<close>
  stores the new descriptor and then loads the index, which stores the persisted one
  over it.
\<close>

theorem Add_same_name_keeps_old:
  "fst (Add sha_id [''app''] art2 ''app'' store_app) = Inr Descriptor_zero
   \<and> fst (Resolve ''app'' (snd (Add sha_id [''app''] art2 ''app'' store_app)))
       = Inr (''app'', desc1)
   \<and> fst (Resolve ''app'' (snd (Add sha_id [''app''] art2 ''app'' store_app)))
       \<noteq> Inr (''app'', desc2)
   \<and> fs (snd (Add sha_id [''app''] art2 ''app'' store_app)) [''blobs'', ''sha256'', ''m1'']
       = Some (Bytes ''m1'')
   \<and> fs (snd (Add sha_id [''app''] art2 ''app'' store_app)) [''blobs'', ''sha256'', ''m2'']
       = Some (Bytes ''m2'')"
  by (simp add: store_app_eval fs_defs digest_defs oci_defs input_defs OCIImageIndexFile_def)

section \<open>Walking the names\<close>

text \<open>The error that \<open>Walk\<close> returns is that of the load, whatever the visitor returns.\<close>

lemma Walk_error_is_load_error: "fst (Walk ks fn s st) = fst (LoadIndex st)"
  by (simp add: Walk_def case_prod_unfold split: option.splits)

text \<open>
  C4.  In a store with the two names \<open>app\<close> and \<open>lib\<close>, a visitor that fails on the
  first pair is called once and not again, and \<open>Walk\<close> returns no error.
\<close>

theorem Walk_drops_visitor_error:
  "map_option Digest (nameMap store_app_lib ''app'') = Some ''sha256:m1''
   \<and> map_option Digest (nameMap store_app_lib ''lib'') = Some ''sha256:m2''
   \<and> fst (Walk [''app'', ''lib''] failing_visitor [] store_app_lib) = None
   \<and> fst (snd (Walk [''app'', ''lib''] failing_visitor [] store_app_lib)) = [''app'']"
  by (simp add: store_app_lib_def store_app_eval Walk_def failing_visitor_def fs_defs
      digest_defs oci_defs input_defs OCIImageIndexFile_def)

section \<open>What a save persists\<close>

lemma range_descs_map:
  "set ks \<subseteq> dom m \<Longrightarrow> range_descs ks m = map (\<lambda>n. stamp n (the (m n))) ks"
  by (induction ks) (auto simp: range_descs_def List.map_filter_def)

lemma stamp_refname [simp]: "annotations_of (stamp n d) AnnotationRefName = Some n"
  by (simp add: stamp_def annotations_of_def)

lemma stamp_inj_name: "stamp n d = stamp n' d' \<Longrightarrow> n = n'"
  using stamp_refname by (metis option.inject)

lemma stamp_shared_idem [simp]: "stamp_shared n (stamp_shared n d) = stamp_shared n d"
  by (simp add: stamp_shared_def stamp_def annotations_of_def split: option.splits)

lemma range_shared_Nil [simp]: "range_shared [] m = m"
  by (simp add: range_shared_def)

lemma range_shared_Cons:
  "range_shared (k # ks) m =
     range_shared ks (case m k of None \<Rightarrow> m | Some d \<Rightarrow> m(k \<mapsto> stamp_shared k d))"
  by (simp add: range_shared_def)

lemma range_shared_apply:
  "range_shared ks m n = (if n \<in> set ks then map_option (stamp_shared n) (m n) else m n)"
  by (induction ks arbitrary: m) (auto simp: range_shared_Cons split: option.splits)

lemma SaveIndex_ok:
  assumes "SaveIndex ks st = (None, st')"
  shows "\<exists>idx. index st = Some idx
           \<and> index st' = Some (idx\<lparr>Manifests := range_descs ks (nameMap st)\<rparr>)
           \<and> fs st' = (fs st)([OCIImageIndexFile] \<mapsto>
                          IndexJSON (idx\<lparr>Manifests := range_descs ks (nameMap st)\<rparr>))
           \<and> nameMap st' = range_shared ks (nameMap st)
           \<and> trace st' = trace st @ [Fs (WriteFile [OCIImageIndexFile])]
           \<and> fault st' = fault st"
  using assms
  by (auto simp: SaveIndex_def Let_def os_WriteFile_def logged_def split: option.splits)

lemma range_descs_set:
  assumes "set ks = dom m"
  shows "set (range_descs ks m) = {stamp n d |n d. m n = Some d}"
proof (intro set_eqI iffI)
  fix x assume "x \<in> set (range_descs ks m)"
  then obtain n where "n \<in> set ks" and "x = stamp n (the (m n))"
    using assms by (auto simp: range_descs_map)
  with assms show "x \<in> {stamp n d |n d. m n = Some d}" by fastforce
next
  fix x assume "x \<in> {stamp n d |n d. m n = Some d}"
  then obtain n d where x: "x = stamp n d" and n: "m n = Some d" by auto
  from n assms have "n \<in> set ks" by auto
  with x n show "x \<in> set (range_descs ks m)"
    using assms by (auto simp: range_descs_map image_iff intro!: bexI [of _ n])
qed



section \<open>Loading the index\<close>

lemma annotation_stamp [simp]: "annotation (stamp n d) AnnotationRefName = n"
  by (simp add: annotation_def)

lemma load_names_Nil [simp]: "load_names [] m = m"
  by (simp add: load_names_def)

lemma load_names_Cons:
  "load_names (d # ds) m =
     load_names ds (if annotation d AnnotationRefName \<noteq> []
                    then m(annotation d AnnotationRefName \<mapsto> d) else m)"
  by (simp add: load_names_def)

lemma load_names_stamped:
  "load_names (map (\<lambda>n. stamp n (f n)) ks) m n =
     (if n \<in> set ks \<and> n \<noteq> [] then Some (stamp n (f n)) else m n)"
  by (induction ks arbitrary: m) (auto simp: load_names_Cons)

lemma LoadIndex_frame:
  assumes "LoadIndex st = (r, st1)"
  shows "fs st1 = fs st \<and> fault st1 = fault st \<and> trace st1 = trace st"
  using assms
  by (auto simp: LoadIndex_def split: sum.splits if_splits)

lemma LoadIndex_error:
  assumes "LoadIndex st = (Some e, st1)"
  shows "st1 = st"
  using assms
  by (auto simp: LoadIndex_def split: sum.splits if_splits)

lemma LoadIndex_ok_cases:
  assumes "LoadIndex st = (None, st1)"
  shows "(os_Open [OCIImageIndexFile] st = Inl ErrNotExist \<and> nameMap st1 = nameMap st
            \<and> index st1 = Some \<lparr>SchemaVersion = 2, Manifests = []\<rparr>)
         \<or> (\<exists>doc. os_Open [OCIImageIndexFile] st = Inr (IndexJSON doc)
               \<and> nameMap st1 = load_names (Manifests doc) (nameMap st) \<and> index st1 = Some doc)"
  using assms
  by (auto simp: LoadIndex_def IsNotExist_def json_Decode_def split: sum.splits if_splits content.splits)

section \<open>The push session\<close>

lemma ensureBlob_snd [simp]:
  "fs (snd (ensureBlob alg hex st)) = fs st"
  "fault (snd (ensureBlob alg hex st)) = fault st"
  "nameMap (snd (ensureBlob alg hex st)) = nameMap st"
  "index (snd (ensureBlob alg hex st)) = index st"
  "trace (snd (ensureBlob alg hex st)) = trace st @ [Fs (MkdirAll [''blobs'', alg])]"
  by (auto simp: ensureBlob_def os_MkdirAll_def logged_def Let_def split: option.splits)

lemma ensureBlob_fst:
  "fst (ensureBlob alg hex st) = Inr p \<Longrightarrow> p = [''blobs'', alg, hex]"
  by (auto simp: ensureBlob_def os_MkdirAll_def logged_def Let_def split: option.splits if_splits)

lemma os_Create_snd [simp]:
  "fault (snd (os_Create p st)) = fault st"
  "nameMap (snd (os_Create p st)) = nameMap st"
  "index (snd (os_Create p st)) = index st"
  "trace (snd (os_Create p st)) = trace st @ [Fs (Create p)]"
  "q \<noteq> p \<Longrightarrow> fs (snd (os_Create p st)) q = fs st q"
  by (auto simp: os_Create_def logged_def split: option.splits)

lemma os_Create_snd_outside [simp]:
  "\<not> prefix [b] q \<Longrightarrow> fs (snd (os_Create (b # r) st)) q = fs st q"
  by (rule os_Create_snd) auto

lemma Push_after_root:
  assumes "Push_root ks p d st = (None, st1)"
  shows "nameMap (snd (Push ks p d st)) = nameMap st1
         \<and> index (snd (Push ks p d st)) = index st1
         \<and> fault (snd (Push ks p d st)) = fault st1
         \<and> (\<forall>q. \<not> prefix [''blobs''] q \<longrightarrow> fs (snd (Push ks p d st)) q = fs st1 q)"
  using assms
  by (auto simp: Push_def case_prod_unfold dest!: ensureBlob_fst split: sum.splits)

lemma Push_root_failed:
  assumes "Push_root ks p d st = (Some e, st1)"
  shows "Push ks p d st = (Inl e, st1)"
  using assms by (simp add: Push_def)

lemma split_first:
  "c \<notin> set xs \<Longrightarrow>
     takeWhile (\<lambda>x. x \<noteq> c) (xs @ c # ys) = xs \<and> dropWhile (\<lambda>x. x \<noteq> c) (xs @ c # ys) = c # ys"
  by (induction xs) auto

lemma SplitN_at_ref:
  "CHR ''@'' \<notin> set base \<Longrightarrow> SplitN_at (base @ CHR ''@'' # dg) = [base, dg]"
  by (simp add: SplitN_at_def split_first)

lemma Pusher_parts:
  assumes "CHR ''@'' \<notin> set base" and "Pusher (base @ CHR ''@'' # dg) st0 = (Inr p, st)"
  shows "baseRef p = base \<and> hash p = dg \<and> LoadIndex st0 = (None, st)"
  using assms
  by (auto simp: Pusher_def SplitN_at_ref Let_def split: prod.splits option.splits)

lemma LoadIndex_ok_fault:
  assumes "LoadIndex st = (None, st1)"
  shows "fault st (Open [OCIImageIndexFile]) = None
         \<or> fault st (Open [OCIImageIndexFile]) = Some ErrNotExist"
  using assms
  by (auto simp: LoadIndex_def os_Open_def IsNotExist_def split: option.splits if_splits)

lemma stamp_shared_cases: "stamp_shared n d = d \<or> stamp_shared n d = stamp n d"
  by (simp add: stamp_shared_def split: option.splits)

lemma Resolve_after_save:
  assumes flt: "fault st (Open [OCIImageIndexFile]) = None
                \<or> fault st (Open [OCIImageIndexFile]) = Some ErrNotExist"
      and doc: "fs st [OCIImageIndexFile] = Some (IndexJSON doc)"
      and descs: "Manifests doc = range_descs ks m"
      and ks: "set ks = dom m"
      and m: "m n = Some d"
      and nm: "nameMap st n = Some (stamp_shared n d)"
  shows "\<exists>d'. fst (Resolve n st) = Inr (n, d') \<and> (d' = d \<or> d' = stamp n d)"
proof -
  from flt show ?thesis
  proof
    assume "fault st (Open [OCIImageIndexFile]) = Some ErrNotExist"
    then have "fst (Resolve n st) = Inr (n, stamp_shared n d)"
      using nm by (simp add: Resolve_def LoadIndex_def os_Open_def IsNotExist_def)
    then show ?thesis using stamp_shared_cases [of n d] by auto
  next
    assume f: "fault st (Open [OCIImageIndexFile]) = None"
    have map: "Manifests doc = map (\<lambda>k. stamp k (the (m k))) ks"
      using descs ks by (simp add: range_descs_map)
    have "load_names (Manifests doc) (nameMap st) n
            = (if n \<in> set ks \<and> n \<noteq> [] then Some (stamp n (the (m n))) else nameMap st n)"
      unfolding map by (rule load_names_stamped)
    then have "load_names (Manifests doc) (nameMap st) n
                 = Some (if n \<noteq> [] then stamp n d else stamp_shared n d)"
      using m nm ks by auto
    then have "fst (Resolve n st) = Inr (n, if n \<noteq> [] then stamp n d else stamp_shared n d)"
      using f doc by (simp add: Resolve_def LoadIndex_def os_Open_def json_Decode_def)
    then show ?thesis using stamp_shared_cases [of n d] by auto
  qed
qed

lemma LoadIndex_index:
  assumes "LoadIndex st = (None, st1)"
  shows "index st1 \<noteq> None"
  using assms by (auto simp: LoadIndex_def split: sum.splits if_splits)

lemma SaveIndex_succeeds:
  assumes "index st \<noteq> None" and "fault st (WriteFile [OCIImageIndexFile]) = None"
  shows "fst (SaveIndex ks st) = None"
  using assms by (auto simp: SaveIndex_def Let_def os_WriteFile_def)

lemma Push_root_ok:
  assumes root: "is_root p d"
      and load: "LoadIndex st = (None, st1)"
      and w: "fault st (WriteFile [OCIImageIndexFile]) = None"
  shows "\<exists>st2. Push_root ks p d st = (None, st2)
           \<and> SaveIndex ks (nameMap_Store (baseRef p) d st1) = (None, st2)"
proof -
  let ?s = "nameMap_Store (baseRef p) d st1"
  have "index ?s \<noteq> None" using LoadIndex_index [OF load] by (simp add: nameMap_Store_def)
  moreover have "fault ?s (WriteFile [OCIImageIndexFile]) = None"
    using LoadIndex_frame [OF load] w by (simp add: nameMap_Store_def)
  ultimately have "fst (SaveIndex ks ?s) = None" by (rule SaveIndex_succeeds)
  then obtain st2 where "SaveIndex ks ?s = (None, st2)" by (metis prod.collapse)
  then show ?thesis using root load by (auto simp: Push_root_def)
qed

lemma Push_not_root:
  assumes "\<not> is_root p d"
  shows "nameMap (snd (Push ks p d st)) = nameMap st
         \<and> index (snd (Push ks p d st)) = index st
         \<and> fs (snd (Push ks p d st)) [OCIImageIndexFile] = fs st [OCIImageIndexFile]"
proof -
  from assms have "Push_root ks p d st = (None, st)" by (simp add: Push_root_def)
  from Push_after_root [OF this] show ?thesis by (simp add: OCIImageIndexFile_def)
qed



section \<open>Blob writes do not touch the index\<close>

lemma blob_frame_refl [simp]: "blob_frame st st"
  by (simp add: blob_frame_def)

lemma blob_frame_trans: "blob_frame st st1 \<Longrightarrow> blob_frame st1 st2 \<Longrightarrow> blob_frame st st2"
  by (simp add: blob_frame_def)

lemma blob_frame_trace [simp]: "blob_frame st (st1\<lparr>trace := t\<rparr>) = blob_frame st st1"
  by (simp add: blob_frame_def)

lemma ensureBlob_blob_frame: "blob_frame st (snd (ensureBlob alg hex st))"
  by (simp add: blob_frame_def)

lemma os_Create_blob_frame: "blob_frame st (snd (os_Create (''blobs'' # r) st))"
  by (simp add: blob_frame_def)

lemma File_Write_blob_frame:
  "blob_frame st (snd (File_Write (Some (''blobs'' # r)) data st))"
  by (auto simp: blob_frame_def File_Write_def logged_def split: option.splits)

lemma File_Write_None [simp]: "File_Write None data st = (Some ErrInvalid, st)"
  by (simp add: File_Write_def)

lemma io_Copy_blob_frame:
  "blob_frame st (snd (snd (io_Copy (Some (''blobs'' # r)) rc st)))"
  using File_Write_blob_frame [of st r "unread rc"]
  by (simp add: io_Copy_def case_prod_unfold split: option.splits)

lemma os_Create_fst: "fst (os_Create p st) = Inr f \<Longrightarrow> f = p"
  by (auto simp: os_Create_def split: option.splits)

lemma writeStream_blob_frame:
  "blob_frame st (snd (snd (writeStream (''blobs'' # r) rc st)))"
proof (cases "os_Stat (''blobs'' # r) st")
  case True
  then show ?thesis by (simp add: writeStream_def)
next
  case False
  show ?thesis
  proof (cases "fst (os_Create (''blobs'' # r) st)")
    case (Inl e)
    then show ?thesis using False os_Create_blob_frame [of st r]
      by (simp add: writeStream_def case_prod_unfold)
  next
    case (Inr f)
    then have f: "f = ''blobs'' # r" by (rule os_Create_fst)
    show ?thesis
      using False Inr f os_Create_blob_frame [of st r]
        io_Copy_blob_frame [of "snd (os_Create (''blobs'' # r) st)" r rc]
      by (auto simp: writeStream_def case_prod_unfold intro: blob_frame_trans)
  qed
qed

lemma writeStream_after_ensureBlob:
  assumes "fst (ensureBlob alg hex st) = Inr p"
  shows "blob_frame st (snd (snd (writeStream p rc (snd (ensureBlob alg hex st)))))"
proof -
  from assms have p: "p = [''blobs'', alg, hex]" by (rule ensureBlob_fst)
  show ?thesis
    unfolding p
    by (rule blob_frame_trans [OF ensureBlob_blob_frame writeStream_blob_frame])
qed

lemma writeBytes_blob_frame: "blob_frame st (snd (writeBytes sha data st))"
  by (auto simp: writeBytes_def Let_def case_prod_unfold ensureBlob_blob_frame
      writeStream_after_ensureBlob split: sum.splits)

lemma writeLayer_blob_frame: "blob_frame st (snd (writeLayer layer st))"
  by (auto simp: writeLayer_def Let_def case_prod_unfold ensureBlob_blob_frame
      writeStream_after_ensureBlob split: sum.splits)

lemma errgroup_Go_blob_frame:
  assumes "\<And>x s. blob_frame s (snd (task x s))"
  shows "blob_frame st (snd (errgroup_Go task xs st))"
proof (induction xs arbitrary: st)
  case Nil
  show ?case by simp
next
  case (Cons x xs)
  have a: "blob_frame st (snd (task x st))" by (rule assms)
  have b: "blob_frame (snd (task x st)) (snd (errgroup_Go task xs (snd (task x st))))"
    by (rule Cons.IH)
  from a b have c: "blob_frame st (snd (errgroup_Go task xs (snd (task x st))))"
    by (rule blob_frame_trans)
  show ?case using a c
    by (auto simp: case_prod_unfold split: option.splits)
qed

lemma errgroup_Wait_blob_frame:
  assumes "\<And>x s. blob_frame s (snd (task x s))"
  shows "blob_frame st (snd (errgroup_Wait task xs st))"
  using errgroup_Go_blob_frame [of task st xs, OF assms]
  by (auto simp: errgroup_Wait_def case_prod_unfold split: option.splits)

lemma Add_blobs_blob_frame: "blob_frame st (snd (Add_blobs sha oci st))"
proof -
  let ?w = "\<lambda>ls. errgroup_Wait writeLayer ls st"
  have w: "\<And>ls. blob_frame st (snd (?w ls))"
    by (rule errgroup_Wait_blob_frame) (rule writeLayer_blob_frame)
  have c: "\<And>ls data. blob_frame st (snd (writeBytes sha data (snd (?w ls))))"
    by (rule blob_frame_trans [OF w writeBytes_blob_frame])
  have m: "\<And>ls data data'. blob_frame st
             (snd (writeBytes sha data' (snd (writeBytes sha data (snd (?w ls))))))"
    by (rule blob_frame_trans [OF c writeBytes_blob_frame])
  show ?thesis
    by (auto simp: Add_blobs_def case_prod_unfold w c m split: sum.splits option.splits)
qed

lemma LoadIndex_snd [simp]:
  "fs (snd (LoadIndex st)) = fs st"
  "fault (snd (LoadIndex st)) = fault st"
  "trace (snd (LoadIndex st)) = trace st"
  using LoadIndex_frame [of st "fst (LoadIndex st)" "snd (LoadIndex st)"] by simp_all

lemma SaveIndex_snd [simp]:
  "fault (snd (SaveIndex ks st)) = fault st"
  "q \<noteq> [OCIImageIndexFile] \<Longrightarrow> fs (snd (SaveIndex ks st)) q = fs st q"
  by (auto simp: SaveIndex_def Let_def os_WriteFile_def logged_def split: option.splits)

lemma nameMap_Store_simps [simp]:
  "fs (nameMap_Store n d st) = fs st"
  "fault (nameMap_Store n d st) = fault st"
  "index (nameMap_Store n d st) = index st"
  "trace (nameMap_Store n d st) = trace st"
  "nameMap (nameMap_Store n d st) = (nameMap st)(n \<mapsto> d)"
  by (simp_all add: nameMap_Store_def)

lemma Add_index_step_frame:
  assumes "Add_blobs sha oci st = (Inr x, st1)" and "q \<noteq> [OCIImageIndexFile]"
  shows "fs (snd (Add sha ks oci ref st)) q = fs st1 q"
  using assms
  by (auto simp: Add_def Let_def case_prod_unfold split: option.splits)

lemma Push_root_frame:
  "fault (snd (Push_root ks p d st)) = fault st"
  "q \<noteq> [OCIImageIndexFile] \<Longrightarrow> fs (snd (Push_root ks p d st)) q = fs st q"
  by (auto simp: Push_root_def case_prod_unfold split: option.splits)

lemma index_not_blob: "\<not> prefix [''blobs''] [OCIImageIndexFile]"
  by (simp add: OCIImageIndexFile_def)

section \<open>The index when an ingestion or a push fails\<close>




section \<open>Pushing a blob that is already stored\<close>



section \<open>Flushing the store\<close>

text \<open>
  After a flush of \<open>store_app\<close> the name \<open>app\<close> still resolves, to the descriptor it was
  registered with: the flush removes files and leaves the name map in memory.
\<close>

theorem Resolve_after_Flush_finds_name:
  "fst (Flush store_app) = None
   \<and> fst (Resolve ''app'' (snd (Flush store_app))) = Inr (''app'', desc1)"
  by (simp add: Flush_def Resolve_def store_app_eval os_RemoveAll_def os_Open_def logged_def
      LoadIndex_def IsNotExist_def no_fault_def OCIImageIndexFile_def)

text \<open>
  C7, as amended.  \<open>Flush\<close> leaves every path outside \<open>blobs/\<close>, \<open>index.json\<close> and
  \<open>oci-layout\<close> as it was, whether it succeeds or not, and leaves the name map and the
  loaded index in memory as they were.  When it succeeds nothing is left at or below the
  three paths, and a store opened afresh on the directory loads an empty name map.
\<close>

theorem Flush_removes_three_paths:
  "(\<forall>q. \<not> (prefix [''blobs''] q \<or> prefix [''index.json''] q \<or> prefix [''oci-layout''] q)
        \<longrightarrow> fs (snd (Flush st)) q = fs st q)
   \<and> nameMap (snd (Flush st)) = nameMap st \<and> index (snd (Flush st)) = index st
   \<and> (fst (Flush st) = None \<longrightarrow>
        (\<forall>q. prefix [''blobs''] q \<or> prefix [''index.json''] q \<or> prefix [''oci-layout''] q
             \<longrightarrow> fs (snd (Flush st)) q = None)
        \<and> (\<forall>flt. fst (LoadIndex (NewOCI (fs (snd (Flush st))) flt)) = None
             \<longrightarrow> nameMap (snd (LoadIndex (NewOCI (fs (snd (Flush st))) flt))) = Map.empty))"
proof -
  have rm: "\<And>p s. nameMap (snd (os_RemoveAll p s)) = nameMap s
              \<and> index (snd (os_RemoveAll p s)) = index s
              \<and> fault (snd (os_RemoveAll p s)) = fault s
              \<and> (\<forall>q. \<not> prefix p q \<longrightarrow> fs (snd (os_RemoveAll p s)) q = fs s q)
              \<and> (\<forall>q. fst (os_RemoveAll p s) = None \<and> fs s q = None
                     \<longrightarrow> fs (snd (os_RemoveAll p s)) q = None)
              \<and> (\<forall>q. fst (os_RemoveAll p s) = None \<and> prefix p q
                     \<longrightarrow> fs (snd (os_RemoveAll p s)) q = None)"
    by (auto simp: os_RemoveAll_def logged_def split: option.splits)
  have frame: "\<forall>q. \<not> (prefix [''blobs''] q \<or> prefix [''index.json''] q \<or> prefix [''oci-layout''] q)
        \<longrightarrow> fs (snd (Flush st)) q = fs st q"
    by (auto simp: Flush_def case_prod_unfold rm split: option.splits)
  have mem: "nameMap (snd (Flush st)) = nameMap st \<and> index (snd (Flush st)) = index st"
    by (auto simp: Flush_def case_prod_unfold rm split: option.splits)
  have gone: "fst (Flush st) = None \<Longrightarrow>
        \<forall>q. prefix [''blobs''] q \<or> prefix [''index.json''] q \<or> prefix [''oci-layout''] q
             \<longrightarrow> fs (snd (Flush st)) q = None"
    by (auto simp: Flush_def case_prod_unfold rm split: option.splits)
  have fresh: "\<forall>flt. fst (LoadIndex (NewOCI (fs (snd (Flush st))) flt)) = None
             \<longrightarrow> nameMap (snd (LoadIndex (NewOCI (fs (snd (Flush st))) flt))) = Map.empty"
    if "fst (Flush st) = None"
  proof -
    from gone [OF that] have "fs (snd (Flush st)) [OCIImageIndexFile] = None"
      by (simp add: OCIImageIndexFile_def)
    then show ?thesis
      by (auto simp: LoadIndex_def os_Open_def NewOCI_def split: option.splits if_splits)
  qed
  show ?thesis using frame mem gone fresh by blast
qed

theorem Flush_removes_three_paths_witness:
  "fst (Flush store_shared) = None
   \<and> fs store_shared [''notes.txt''] = Some (Bytes ''keep'')
   \<and> fs (snd (Flush store_shared)) [''notes.txt''] = fs store_shared [''notes.txt'']
   \<and> nameMap (snd (Flush store_shared)) = nameMap store_shared
   \<and> index (snd (Flush store_shared)) = index store_shared
   \<and> fs store_shared [''blobs'', ''sha256'', ''m1''] = Some (Bytes ''m1'')
   \<and> fs (snd (Flush store_shared)) [''blobs'', ''sha256'', ''m1''] = None
   \<and> fs (snd (Flush store_shared)) [''index.json''] = None
   \<and> fs (snd (Flush store_shared)) [''oci-layout''] = None
   \<and> fst (LoadIndex (NewOCI (fs (snd (Flush store_shared))) no_fault)) = None
   \<and> nameMap (snd (LoadIndex (NewOCI (fs (snd (Flush store_shared))) no_fault))) = Map.empty"
proof -
  have h1: "fst (Flush store_shared) = None"
    by (simp add: Flush_def store_shared_def store_app_eval os_RemoveAll_def logged_def
        no_fault_def)
  have h2: "fs store_shared [''notes.txt''] = Some (Bytes ''keep'')"
    and h3: "fs store_shared [''blobs'', ''sha256'', ''m1''] = Some (Bytes ''m1'')"
    by (simp_all add: store_shared_def store_app_eval OCIImageIndexFile_def)
  have h4: "fst (LoadIndex (NewOCI (fs (snd (Flush store_shared))) no_fault)) = None"
    by (simp add: Flush_def store_shared_def store_app_eval os_RemoveAll_def logged_def
        no_fault_def LoadIndex_def os_Open_def NewOCI_def IsNotExist_def OCIImageIndexFile_def)
  have n: "\<not> (prefix [''blobs''] [''notes.txt''] \<or> prefix [''index.json''] [''notes.txt'']
              \<or> prefix [''oci-layout''] [''notes.txt''])" by simp
  have p1: "prefix [''blobs''] [''blobs'', ''sha256'', ''m1'']"
    and p2: "prefix [''index.json''] [''index.json'']"
    and p3: "prefix [''oci-layout''] [''oci-layout'']" by simp_all
  note t = Flush_removes_three_paths [of store_shared]
  from t n have c1: "fs (snd (Flush store_shared)) [''notes.txt''] = fs store_shared [''notes.txt'']"
    by blast
  from t have c2: "nameMap (snd (Flush store_shared)) = nameMap store_shared
                   \<and> index (snd (Flush store_shared)) = index store_shared" by blast
  from t h1 p1 p2 p3 have c3: "fs (snd (Flush store_shared)) [''blobs'', ''sha256'', ''m1''] = None
       \<and> fs (snd (Flush store_shared)) [''index.json''] = None
       \<and> fs (snd (Flush store_shared)) [''oci-layout''] = None" by blast
  from t h1 h4 have c4: "nameMap (snd (LoadIndex (NewOCI (fs (snd (Flush store_shared))) no_fault)))
                           = Map.empty" by blast
  from h1 h2 h3 h4 c1 c2 c3 c4 show ?thesis by blast
qed

section \<open>The order of the writes of an ingestion\<close>

lemma appends_refl [simp]: "appends P st st"
  by (simp add: appends_def)

lemma appends_trans: "appends P a b \<Longrightarrow> appends P b c \<Longrightarrow> appends P a c"
  by (auto simp: appends_def)

lemma appends_mono: "appends P a b \<Longrightarrow> (\<And>e. P e \<Longrightarrow> Q e) \<Longrightarrow> appends Q a b"
  by (auto simp: appends_def list_all_iff)

lemma appends_one: "trace b = trace a @ [e] \<Longrightarrow> P e \<Longrightarrow> appends P a b"
  by (simp add: appends_def)

lemma appends_same: "trace b = trace a \<Longrightarrow> appends P a b"
  by (simp add: appends_def)

lemma ensureBlob_appends: "appends blob_op st (snd (ensureBlob alg hex st))"
  by (rule appends_one [of _ _ "Fs (MkdirAll [''blobs'', alg])"]) simp_all

lemma os_Create_appends: "appends blob_op st (snd (os_Create p st))"
  by (rule appends_one [of _ _ "Fs (Create p)"]) simp_all

lemma File_Write_appends: "appends blob_op st (snd (File_Write w data st))"
  by (auto simp: File_Write_def logged_def appends_def split: option.splits)

lemma io_Copy_appends: "appends blob_op st (snd (snd (io_Copy w rc st)))"
  using File_Write_appends [of st w "unread rc"]
  by (simp add: io_Copy_def case_prod_unfold split: option.splits)

lemma writeStream_appends: "appends blob_op st (snd (snd (writeStream p rc st)))"
  using os_Create_appends [of st p] io_Copy_appends [of "snd (os_Create p st)" _ rc]
  by (auto simp: writeStream_def case_prod_unfold split: sum.splits intro: appends_trans)

lemma writeBytes_appends: "appends blob_op st (snd (writeBytes sha data st))"
  by (auto simp: writeBytes_def Let_def case_prod_unfold split: sum.splits
      intro: appends_trans [OF ensureBlob_appends writeStream_appends] ensureBlob_appends)

lemma writeLayer_appends: "appends blob_op st (snd (writeLayer layer st))"
  by (auto simp: writeLayer_def Let_def case_prod_unfold split: sum.splits
      intro: appends_trans [OF ensureBlob_appends writeStream_appends] ensureBlob_appends)

lemma writerAt_appends: "appends blob_op st (snd (writerAt alg hex st))"
proof -
  let ?m = "snd (os_MkdirAll [''blobs'', alg] st)"
  have m: "appends blob_op st ?m"
    by (rule appends_one [of _ _ "Fs (MkdirAll [''blobs'', alg])"])
      (simp_all add: os_MkdirAll_def logged_def)
  have c: "appends blob_op st (snd (os_Create [''blobs'', alg, hex] ?m))"
    by (rule appends_trans [OF m os_Create_appends])
  show ?thesis using m c
    by (auto simp: writerAt_def Let_def case_prod_unfold split: sum.splits option.splits)
qed

lemma Layout_writeBytes_appends: "appends blob_op st (snd (Layout_writeBytes sha data st))"
  by (auto simp: Layout_writeBytes_def Let_def case_prod_unfold split: sum.splits
      intro: appends_trans [OF writerAt_appends File_Write_appends] writerAt_appends)

lemma AddOCI_layer_appends: "appends blob_op st (snd (AddOCI_layer layer st))"
  by (auto simp: AddOCI_layer_def Let_def case_prod_unfold split: sum.splits
      intro: appends_trans [OF writerAt_appends io_Copy_appends] writerAt_appends)

lemma errgroup_Go_appends:
  assumes "\<And>x s. appends P s (snd (task x s))"
  shows "appends P st (snd (errgroup_Go task xs st))"
proof (induction xs arbitrary: st)
  case Nil
  show ?case by simp
next
  case (Cons x xs)
  have a: "appends P st (snd (task x st))" by (rule assms)
  have c: "appends P st (snd (errgroup_Go task xs (snd (task x st))))"
    by (rule appends_trans [OF a Cons.IH])
  show ?case using a c
    by (auto simp: case_prod_unfold split: option.splits)
qed

text \<open>What \<open>Wait\<close> adds: the events of the goroutines, then \<open>Await\<close> unless one panicked.\<close>

lemma errgroup_Wait_trace:
  assumes "\<And>x s. appends blob_op s (snd (task x s))"
  shows "\<exists>evs. list_all blob_op evs
           \<and> (if (\<exists>e. fst (errgroup_Wait task xs st) = Some e \<and> is_panic e)
               then trace (snd (errgroup_Wait task xs st)) = trace st @ evs
               else trace (snd (errgroup_Wait task xs st)) = trace st @ evs @ [Await])"
proof -
  from errgroup_Go_appends [of blob_op task st xs, OF assms] obtain evs where
    "trace (snd (errgroup_Go task xs st)) = trace st @ evs" and "list_all blob_op evs"
    by (auto simp: appends_def)
  then show ?thesis
    by (auto simp: errgroup_Wait_def case_prod_unfold split: option.splits intro!: exI [of _ evs])
qed

lemma blob_op_imp: "blob_op e \<Longrightarrow> blob_or_await e"
  by (cases e) auto

lemma blob_op_not_await: "list_all blob_op evs \<Longrightarrow> Await \<notin> set evs"
  by (auto simp: list_all_iff)

lemma blob_or_await_not_index:
  "list_all blob_or_await evs \<Longrightarrow> Fs (WriteFile p) \<notin> set evs"
  by (auto simp: list_all_iff)

lemma errgroup_Wait_appends:
  assumes "\<And>x s. appends blob_op s (snd (task x s))"
  shows "appends blob_or_await st (snd (errgroup_Wait task xs st))"
proof -
  from errgroup_Wait_trace [of task xs st, OF assms] obtain evs where
    e: "list_all blob_op evs"
    and t: "trace (snd (errgroup_Wait task xs st)) = trace st @ evs
            \<or> trace (snd (errgroup_Wait task xs st)) = trace st @ evs @ [Await]"
    by (auto split: if_splits)
  from e have e': "list_all blob_or_await evs" by (auto simp: list_all_iff blob_op_imp)
  from t show ?thesis
  proof
    assume "trace (snd (errgroup_Wait task xs st)) = trace st @ evs"
    with e' show ?thesis by (auto simp: appends_def)
  next
    assume "trace (snd (errgroup_Wait task xs st)) = trace st @ evs @ [Await]"
    with e' show ?thesis by (auto simp: appends_def intro!: exI [of _ "evs @ [Await]"])
  qed
qed

lemma SaveIndex_trace:
  "trace (snd (SaveIndex ks st)) = trace st
   \<or> trace (snd (SaveIndex ks st)) = trace st @ [Fs (WriteFile [OCIImageIndexFile])]"
  by (auto simp: SaveIndex_def Let_def os_WriteFile_def logged_def split: option.splits)

lemma Add_blobs_after_wait:
  assumes "Layers oci = Inr layers"
  shows "appends blob_op (snd (errgroup_Wait writeLayer layers st)) (snd (Add_blobs sha oci st))"
proof -
  let ?w = "snd (errgroup_Wait writeLayer layers st)"
  have c: "\<And>data. appends blob_op ?w (snd (writeBytes sha data ?w))"
    by (rule writeBytes_appends)
  have m: "\<And>data data'. appends blob_op ?w (snd (writeBytes sha data' (snd (writeBytes sha data ?w))))"
    by (rule appends_trans [OF c writeBytes_appends])
  show ?thesis using assms c m
    by (auto simp: Add_blobs_def case_prod_unfold split: sum.splits option.splits)
qed

lemma Add_blobs_appends: "appends blob_or_await st (snd (Add_blobs sha oci st))"
proof (cases "Layers oci")
  case (Inl e)
  then show ?thesis by (simp add: Add_blobs_def)
next
  case (Inr layers)
  have "appends blob_or_await st (snd (errgroup_Wait writeLayer layers st))"
    by (rule errgroup_Wait_appends) (rule writeLayer_appends)
  moreover have "appends blob_or_await (snd (errgroup_Wait writeLayer layers st))
                   (snd (Add_blobs sha oci st))"
    by (rule appends_mono [OF Add_blobs_after_wait [OF Inr]]) (rule blob_op_imp)
  ultimately show ?thesis by (rule appends_trans)
qed

lemma Add_index_step_trace:
  assumes "Add_blobs sha oci st = (Inr x, st1)"
  shows "trace (snd (Add sha ks oci ref st)) = trace st1
         \<or> trace (snd (Add sha ks oci ref st)) = trace st1 @ [Fs (WriteFile [OCIImageIndexFile])]"
proof -
  obtain m mdata where x: "x = (m, mdata)" by (cases x)
  let ?midx = "\<lparr>MediaType = ManifestMediaType m, Digest = FromBytes sha mdata,
                 Size = int (length mdata), URLs = [],
                 Annotations = Some [AnnotationRefName \<mapsto> ref], Platform = None\<rparr>"
  let ?l = "snd (LoadIndex (nameMap_Store ref ?midx st1))"
  have l: "trace ?l = trace st1" by simp
  from SaveIndex_trace [of ks ?l] l show ?thesis
    using assms x
    by (auto simp: Add_def Let_def case_prod_unfold split: option.splits)
qed

lemma Add_index_write_last:
  assumes run: "trace (snd (Add sha ks oci ref st)) = trace st @ evs"
      and w: "Fs (WriteFile [OCIImageIndexFile]) \<in> set evs"
  shows "\<exists>x st1 evs1. Add_blobs sha oci st = (Inr x, st1) \<and> trace st1 = trace st @ evs1
           \<and> list_all blob_or_await evs1 \<and> evs = evs1 @ [Fs (WriteFile [OCIImageIndexFile])]"
proof -
  let ?b = "snd (Add_blobs sha oci st)"
  from Add_blobs_appends [of st sha oci] obtain evs1 where
    t1: "trace ?b = trace st @ evs1" and e1: "list_all blob_or_await evs1"
    by (auto simp: appends_def)
  show ?thesis
  proof (cases "fst (Add_blobs sha oci st)")
    case (Inl e)
    then have "Add sha ks oci ref st = (Inl e, ?b)"
      by (simp add: Add_def case_prod_unfold)
    with run t1 have "evs = evs1" by simp
    with w blob_or_await_not_index [OF e1] show ?thesis by simp
  next
    case (Inr x)
    then have b: "Add_blobs sha oci st = (Inr x, ?b)" by (simp add: prod_eq_iff)
    from Add_index_step_trace [OF b, of ks ref] run t1
    have "evs = evs1 \<or> evs = evs1 @ [Fs (WriteFile [OCIImageIndexFile])]" by auto
    with w blob_or_await_not_index [OF e1]
    have "evs = evs1 @ [Fs (WriteFile [OCIImageIndexFile])]" by auto
    with b t1 e1 show ?thesis by blast
  qed
qed

lemma Add_await_first:
  assumes run: "trace (snd (Add sha ks oci ref st)) = trace st @ evs"
      and aw: "Await \<in> set evs"
  shows "\<exists>layers e st1 evs0 evs2. Layers oci = Inr layers
           \<and> errgroup_Wait writeLayer layers st = (e, st1)
           \<and> trace st1 = trace st @ evs0 @ [Await] \<and> list_all blob_op evs0
           \<and> evs = evs0 @ Await # evs2 \<and> Await \<notin> set evs2"
proof (cases "Layers oci")
  case (Inl e)
  then have "snd (Add sha ks oci ref st) = st" by (simp add: Add_def Add_blobs_def)
  with run aw show ?thesis by simp
next
  case (Inr layers)
  let ?w = "errgroup_Wait writeLayer layers st"
  let ?b = "snd (Add_blobs sha oci st)"
  have rest: "appends (\<lambda>e. e \<noteq> Await) (snd ?w) (snd (Add sha ks oci ref st))"
  proof -
    have 1: "appends (\<lambda>e. e \<noteq> Await) (snd ?w) ?b"
      by (rule appends_mono [OF Add_blobs_after_wait [OF Inr]]) auto
    have 2: "appends (\<lambda>e. e \<noteq> Await) ?b (snd (Add sha ks oci ref st))"
    proof (cases "fst (Add_blobs sha oci st)")
      case (Inl e)
      then show ?thesis by (simp add: Add_def case_prod_unfold)
    next
      case (Inr x)
      then have "Add_blobs sha oci st = (Inr x, ?b)" by (simp add: prod_eq_iff)
      from Add_index_step_trace [OF this, of ks ref] show ?thesis
        by (auto simp: appends_def)
    qed
    from 1 2 show ?thesis by (rule appends_trans)
  qed
  then obtain evs2 where t2: "trace (snd (Add sha ks oci ref st)) = trace (snd ?w) @ evs2"
    and e2: "Await \<notin> set evs2" by (auto simp: appends_def list_all_iff)
  from errgroup_Wait_trace [of writeLayer layers st, OF writeLayer_appends] obtain evs0 where
    e0: "list_all blob_op evs0"
    and t0: "trace (snd ?w) = trace st @ evs0 \<or> trace (snd ?w) = trace st @ evs0 @ [Await]"
    by (auto split: if_splits)
  from t0 have t: "trace (snd ?w) = trace st @ evs0 @ [Await]"
  proof
    assume "trace (snd ?w) = trace st @ evs0"
    with t2 run have "evs = evs0 @ evs2" by simp
    with aw e2 blob_op_not_await [OF e0] show ?thesis by simp
  qed
  with t2 run have "evs = evs0 @ Await # evs2" by simp
  with Inr t e0 e2 show ?thesis
    by (intro exI [of _ layers] exI [of _ "fst ?w"] exI [of _ "snd ?w"] exI [of _ evs0]
        exI [of _ evs2]) simp
qed

lemma AddOCI_blobs_structure:
  "(\<exists>e. fst (AddOCI_blobs sha cache oci st) = Inl e
        \<and> appends blob_op st (snd (AddOCI_blobs sha cache oci st)))
   \<or> (\<exists>m mdata cdata layers st1 st2.
         GetManifest (cached cache oci) = Inr m \<and> Marshal m = Inr mdata
         \<and> RawConfig (cached cache oci) = Inr cdata \<and> Layers (cached cache oci) = Inr layers
         \<and> Layout_writeBytes sha mdata st = (None, st1)
         \<and> Layout_writeBytes sha cdata st1 = (None, st2)
         \<and> appends blob_op st st2
         \<and> appends blob_or_await st2 (snd (AddOCI_blobs sha cache oci st)))"
proof (cases "GetManifest (cached cache oci)")
  case (Inl e)
  then show ?thesis by (simp add: AddOCI_blobs_def)
next
  case m: (Inr m)
  show ?thesis
  proof (cases "Marshal m")
    case (Inl e)
    with m show ?thesis by (simp add: AddOCI_blobs_def)
  next
    case md: (Inr mdata)
    let ?w1 = "Layout_writeBytes sha mdata st"
    have a1: "appends blob_op st (snd ?w1)" by (rule Layout_writeBytes_appends)
    show ?thesis
    proof (cases "fst ?w1")
      case (Some e)
      with m md a1 show ?thesis by (simp add: AddOCI_blobs_def case_prod_unfold)
    next
      case w1: None
      show ?thesis
      proof (cases "RawConfig (cached cache oci)")
        case (Inl e)
        with m md w1 a1 show ?thesis by (simp add: AddOCI_blobs_def case_prod_unfold)
      next
        case cd: (Inr cdata)
        let ?w2 = "Layout_writeBytes sha cdata (snd ?w1)"
        have a2: "appends blob_op st (snd ?w2)"
          by (rule appends_trans [OF a1 Layout_writeBytes_appends])
        show ?thesis
        proof (cases "fst ?w2")
          case (Some e)
          with m md w1 cd a2 show ?thesis by (simp add: AddOCI_blobs_def case_prod_unfold)
        next
          case w2: None
          show ?thesis
          proof (cases "Layers (cached cache oci)")
            case (Inl e)
            with m md w1 cd w2 a2 show ?thesis by (simp add: AddOCI_blobs_def case_prod_unfold)
          next
            case ls: (Inr layers)
            have "appends blob_or_await (snd ?w2) (snd (errgroup_Wait AddOCI_layer layers (snd ?w2)))"
              by (rule errgroup_Wait_appends) (rule AddOCI_layer_appends)
            then have a3: "appends blob_or_await (snd ?w2) (snd (AddOCI_blobs sha cache oci st))"
              using m md w1 cd w2 ls
              by (simp add: AddOCI_blobs_def case_prod_unfold split: option.splits)
            have e1: "?w1 = (None, snd ?w1)" using w1 by (simp add: prod_eq_iff)
            have e2: "?w2 = (None, snd ?w2)" using w2 by (simp add: prod_eq_iff)
            from m md cd ls e1 e2 a2 a3 show ?thesis by blast
          qed
        qed
      qed
    qed
  qed
qed

lemma AddOCI_blobs_appends: "appends blob_or_await st (snd (AddOCI_blobs sha cache oci st))"
  using AddOCI_blobs_structure [of sha cache oci st]
  by (auto intro: appends_mono [OF _ blob_op_imp] appends_trans)

lemma AddOCI_index_step_trace:
  assumes "AddOCI_blobs sha cache oci st = (Inr x, st1)"
  shows "trace (snd (AddOCI sha ks cache oci ref st)) = trace st1
         \<or> trace (snd (AddOCI sha ks cache oci ref st))
             = trace st1 @ [Fs (WriteFile [OCIImageIndexFile])]"
proof -
  obtain m mdata where x: "x = (m, mdata)" by (cases x)
  let ?idx = "\<lparr>MediaType = ManifestMediaType m, Digest = FromBytes sha mdata,
                Size = int (length mdata), URLs = [],
                Annotations = Some [AnnotationRefName \<mapsto> ref], Platform = None\<rparr>"
  from SaveIndex_trace [of ks "nameMap_Store (annotation ?idx AnnotationRefName) ?idx st1"]
  show ?thesis
    using assms x
    by (auto simp: AddOCI_def AddIndex_def Let_def case_prod_unfold split: option.splits)
qed

lemma AddOCI_index_write_last:
  assumes run: "trace (snd (AddOCI sha ks cache oci ref st)) = trace st @ evs"
      and w: "Fs (WriteFile [OCIImageIndexFile]) \<in> set evs"
  shows "\<exists>x st1 evs1. AddOCI_blobs sha cache oci st = (Inr x, st1) \<and> trace st1 = trace st @ evs1
           \<and> list_all blob_or_await evs1 \<and> evs = evs1 @ [Fs (WriteFile [OCIImageIndexFile])]"
proof -
  let ?b = "snd (AddOCI_blobs sha cache oci st)"
  from AddOCI_blobs_appends [of st sha cache oci] obtain evs1 where
    t1: "trace ?b = trace st @ evs1" and e1: "list_all blob_or_await evs1"
    by (auto simp: appends_def)
  show ?thesis
  proof (cases "fst (AddOCI_blobs sha cache oci st)")
    case (Inl e)
    then have "AddOCI sha ks cache oci ref st = (Inl e, ?b)"
      by (simp add: AddOCI_def case_prod_unfold)
    with run t1 have "evs = evs1" by simp
    with w blob_or_await_not_index [OF e1] show ?thesis by simp
  next
    case (Inr x)
    then have b: "AddOCI_blobs sha cache oci st = (Inr x, ?b)" by (simp add: prod_eq_iff)
    from AddOCI_index_step_trace [OF b, of ks ref] run t1
    have "evs = evs1 \<or> evs = evs1 @ [Fs (WriteFile [OCIImageIndexFile])]" by auto
    with w blob_or_await_not_index [OF e1]
    have "evs = evs1 @ [Fs (WriteFile [OCIImageIndexFile])]" by auto
    with b t1 e1 show ?thesis by blast
  qed
qed

lemma AddOCI_writes_before_await:
  assumes run: "trace (snd (AddOCI sha ks cache oci ref st)) = trace st @ evs"
      and aw: "Await \<in> set evs"
  shows "\<exists>m mdata cdata st1 st2 evs1 evs2.
           GetManifest (cached cache oci) = Inr m \<and> Marshal m = Inr mdata
           \<and> RawConfig (cached cache oci) = Inr cdata
           \<and> Layout_writeBytes sha mdata st = (None, st1)
           \<and> Layout_writeBytes sha cdata st1 = (None, st2)
           \<and> trace st2 = trace st @ evs1 \<and> list_all blob_op evs1 \<and> evs = evs1 @ evs2"
proof -
  let ?b = "snd (AddOCI_blobs sha cache oci st)"
  have tail: "appends (\<lambda>e. True) ?b (snd (AddOCI sha ks cache oci ref st))"
  proof (cases "fst (AddOCI_blobs sha cache oci st)")
    case (Inl e)
    then show ?thesis by (simp add: AddOCI_def case_prod_unfold)
  next
    case (Inr x)
    then have "AddOCI_blobs sha cache oci st = (Inr x, ?b)" by (simp add: prod_eq_iff)
    from AddOCI_index_step_trace [OF this, of ks ref] show ?thesis
      by (auto simp: appends_def)
  qed
  from AddOCI_blobs_structure [of sha cache oci st] show ?thesis
  proof
    assume "\<exists>e. fst (AddOCI_blobs sha cache oci st) = Inl e \<and> appends blob_op st ?b"
    then obtain e evs1 where e: "fst (AddOCI_blobs sha cache oci st) = Inl e"
      and t: "trace ?b = trace st @ evs1" and b: "list_all blob_op evs1"
      by (auto simp: appends_def)
    from e have "AddOCI sha ks cache oci ref st = (Inl e, ?b)"
      by (simp add: AddOCI_def case_prod_unfold)
    with run t have "evs = evs1" by simp
    with aw blob_op_not_await [OF b] show ?thesis by simp
  next
    assume "\<exists>m mdata cdata layers st1 st2.
         GetManifest (cached cache oci) = Inr m \<and> Marshal m = Inr mdata
         \<and> RawConfig (cached cache oci) = Inr cdata \<and> Layers (cached cache oci) = Inr layers
         \<and> Layout_writeBytes sha mdata st = (None, st1)
         \<and> Layout_writeBytes sha cdata st1 = (None, st2)
         \<and> appends blob_op st st2
         \<and> appends blob_or_await st2 ?b"
    then obtain m mdata cdata st1 st2 evs1 evs2 where
      f: "GetManifest (cached cache oci) = Inr m" "Marshal m = Inr mdata"
         "RawConfig (cached cache oci) = Inr cdata"
         "Layout_writeBytes sha mdata st = (None, st1)"
         "Layout_writeBytes sha cdata st1 = (None, st2)"
      and t1: "trace st2 = trace st @ evs1" and b1: "list_all blob_op evs1"
      and t2: "trace ?b = trace st2 @ evs2"
      by (auto simp: appends_def)
    from tail obtain evs3 where
      t3: "trace (snd (AddOCI sha ks cache oci ref st)) = trace ?b @ evs3"
      by (auto simp: appends_def)
    from run t1 t2 t3 have "evs = evs1 @ (evs2 @ evs3)" by simp
    with f t1 b1 show ?thesis by blast
  qed
qed

text \<open>
  \<open>Add\<close> of \<open>art1\<close> on an empty store: the layer is written and awaited first, the
  config blob and the manifest blob are written after the await.
\<close>

theorem Add_writes_config_after_await:
  "trace (snd (Add sha_id [''app''] art1 ''app'' (NewOCI Map.empty no_fault)))
     = [Fs (MkdirAll [''blobs'', ''sha256'']), Fs (Create [''blobs'', ''sha256'', ''l1'']),
        Fs (Write [''blobs'', ''sha256'', ''l1'']), Await,
        Fs (MkdirAll [''blobs'', ''sha256'']), Fs (Create [''blobs'', ''sha256'', ''c1'']),
        Fs (Write [''blobs'', ''sha256'', ''c1'']),
        Fs (MkdirAll [''blobs'', ''sha256'']), Fs (Create [''blobs'', ''sha256'', ''m1'']),
        Fs (Write [''blobs'', ''sha256'', ''m1'']),
        Fs (WriteFile [OCIImageIndexFile])]"
  using store_app_eval by (simp add: store_app_def)

text \<open>
  C8, as amended.  In a run of \<open>AddOCI\<close> that reaches the await of the layer writes, the
  manifest blob and the config blob have been written without error before it: their
  events are a prefix of the events of the run that holds no await.  In a run of \<open>Add\<close>
  that reaches the await, the events before it are those of the layer writes, and the
  config and the manifest are written from the state the await leaves.  In both, when the
  index document is written, every blob write has succeeded and the write of the index is
  the last event, after all the others.
\<close>

theorem ingestion_order:
  "(trace (snd (AddOCI sha ks cache oci ref st)) = trace st @ evs \<and> Await \<in> set evs \<longrightarrow>
      (\<exists>m mdata cdata st1 st2 evs1 evs2.
           GetManifest (cached cache oci) = Inr m \<and> Marshal m = Inr mdata
           \<and> RawConfig (cached cache oci) = Inr cdata
           \<and> Layout_writeBytes sha mdata st = (None, st1)
           \<and> Layout_writeBytes sha cdata st1 = (None, st2)
           \<and> trace st2 = trace st @ evs1 \<and> list_all blob_op evs1 \<and> evs = evs1 @ evs2))
   \<and> (trace (snd (Add sha ks oci ref st)) = trace st @ evs \<and> Await \<in> set evs \<longrightarrow>
      (\<exists>layers e st1 evs0 evs2. Layers oci = Inr layers
           \<and> errgroup_Wait writeLayer layers st = (e, st1)
           \<and> trace st1 = trace st @ evs0 @ [Await] \<and> list_all blob_op evs0
           \<and> evs = evs0 @ Await # evs2 \<and> Await \<notin> set evs2))
   \<and> (trace (snd (AddOCI sha ks cache oci ref st)) = trace st @ evs
        \<and> Fs (WriteFile [OCIImageIndexFile]) \<in> set evs \<longrightarrow>
      (\<exists>x st1 evs1. AddOCI_blobs sha cache oci st = (Inr x, st1) \<and> trace st1 = trace st @ evs1
           \<and> list_all blob_or_await evs1 \<and> evs = evs1 @ [Fs (WriteFile [OCIImageIndexFile])]))
   \<and> (trace (snd (Add sha ks oci ref st)) = trace st @ evs
        \<and> Fs (WriteFile [OCIImageIndexFile]) \<in> set evs \<longrightarrow>
      (\<exists>x st1 evs1. Add_blobs sha oci st = (Inr x, st1) \<and> trace st1 = trace st @ evs1
           \<and> list_all blob_or_await evs1 \<and> evs = evs1 @ [Fs (WriteFile [OCIImageIndexFile])]))"
  using AddOCI_writes_before_await [of sha ks cache oci ref st evs]
    Add_await_first [of sha ks oci ref st evs]
    AddOCI_index_write_last [of sha ks cache oci ref st evs]
    Add_index_write_last [of sha ks oci ref st evs]
  by blast

theorem ingestion_order_witness:
  "trace (snd (AddOCI sha_id [''app''] None art1 ''app'' store_empty))
     = trace store_empty @ trace_AddOCI
   \<and> Await \<in> set trace_AddOCI \<and> Fs (WriteFile [OCIImageIndexFile]) \<in> set trace_AddOCI
   \<and> trace (snd (Add sha_id [''app''] art1 ''app'' store_empty)) = trace store_empty @ trace_Add
   \<and> Await \<in> set trace_Add \<and> Fs (WriteFile [OCIImageIndexFile]) \<in> set trace_Add
   \<and> (\<exists>m mdata cdata st1 st2 evs1 evs2.
           GetManifest (cached None art1) = Inr m \<and> Marshal m = Inr mdata
           \<and> RawConfig (cached None art1) = Inr cdata
           \<and> Layout_writeBytes sha_id mdata store_empty = (None, st1)
           \<and> Layout_writeBytes sha_id cdata st1 = (None, st2)
           \<and> trace st2 = trace store_empty @ evs1 \<and> list_all blob_op evs1
           \<and> trace_AddOCI = evs1 @ evs2)
   \<and> (\<exists>layers e st1 evs0 evs2. Layers art1 = Inr layers
           \<and> errgroup_Wait writeLayer layers store_empty = (e, st1)
           \<and> trace st1 = trace store_empty @ evs0 @ [Await] \<and> list_all blob_op evs0
           \<and> trace_Add = evs0 @ Await # evs2 \<and> Await \<notin> set evs2)
   \<and> (\<exists>x st1 evs1. AddOCI_blobs sha_id None art1 store_empty = (Inr x, st1)
           \<and> trace st1 = trace store_empty @ evs1 \<and> list_all blob_or_await evs1
           \<and> trace_AddOCI = evs1 @ [Fs (WriteFile [OCIImageIndexFile])])
   \<and> (\<exists>x st1 evs1. Add_blobs sha_id art1 store_empty = (Inr x, st1)
           \<and> trace st1 = trace store_empty @ evs1 \<and> list_all blob_or_await evs1
           \<and> trace_Add = evs1 @ [Fs (WriteFile [OCIImageIndexFile])])"
proof -
  have r1: "trace (snd (AddOCI sha_id [''app''] None art1 ''app'' store_empty))
              = trace store_empty @ trace_AddOCI"
    by (simp add: trace_AddOCI_def store_empty_eval fs_defs digest_defs oci_defs layout_defs
        input_defs)
  have r2: "trace (snd (Add sha_id [''app''] art1 ''app'' store_empty))
              = trace store_empty @ trace_Add"
    by (simp add: trace_Add_def store_empty_eval fs_defs digest_defs oci_defs input_defs)
  have m1: "Await \<in> set trace_AddOCI" and m2: "Fs (WriteFile [OCIImageIndexFile]) \<in> set trace_AddOCI"
    by (simp_all add: trace_AddOCI_def)
  have m3: "Await \<in> set trace_Add" and m4: "Fs (WriteFile [OCIImageIndexFile]) \<in> set trace_Add"
    by (simp_all add: trace_Add_def)
  note t1 = ingestion_order [where sha = sha_id and ks = "[''app'']" and cache = None
      and oci = art1 and ref = "''app''" and st = store_empty and evs = trace_AddOCI]
  note t2 = ingestion_order [where sha = sha_id and ks = "[''app'']" and cache = None
      and oci = art1 and ref = "''app''" and st = store_empty and evs = trace_Add]
  from t1 r1 m1 have c1: "\<exists>m mdata cdata st1 st2 evs1 evs2.
           GetManifest (cached None art1) = Inr m \<and> Marshal m = Inr mdata
           \<and> RawConfig (cached None art1) = Inr cdata
           \<and> Layout_writeBytes sha_id mdata store_empty = (None, st1)
           \<and> Layout_writeBytes sha_id cdata st1 = (None, st2)
           \<and> trace st2 = trace store_empty @ evs1 \<and> list_all blob_op evs1
           \<and> trace_AddOCI = evs1 @ evs2"
    by blast
  from t2 r2 m3 have c2: "\<exists>layers e st1 evs0 evs2. Layers art1 = Inr layers
           \<and> errgroup_Wait writeLayer layers store_empty = (e, st1)
           \<and> trace st1 = trace store_empty @ evs0 @ [Await] \<and> list_all blob_op evs0
           \<and> trace_Add = evs0 @ Await # evs2 \<and> Await \<notin> set evs2"
    by blast
  from t1 r1 m2 have c3: "\<exists>x st1 evs1. AddOCI_blobs sha_id None art1 store_empty = (Inr x, st1)
           \<and> trace st1 = trace store_empty @ evs1 \<and> list_all blob_or_await evs1
           \<and> trace_AddOCI = evs1 @ [Fs (WriteFile [OCIImageIndexFile])]"
    by blast
  from t2 r2 m4 have c4: "\<exists>x st1 evs1. Add_blobs sha_id art1 store_empty = (Inr x, st1)
           \<and> trace st1 = trace store_empty @ evs1 \<and> list_all blob_or_await evs1
           \<and> trace_Add = evs1 @ [Fs (WriteFile [OCIImageIndexFile])]"
    by blast
  from r1 r2 m1 m2 m3 m4 c1 c2 c3 c4 show ?thesis by blast
qed

end
